theory Spec2Isabelle
  imports Complex_Main
begin

section \<open>Numbers, constants and library functions\<close>

text \<open>
  The propagators compute with JavaScript numbers. They are modelled here by the
  real numbers with exact arithmetic: \<open>Math.sin\<close>, \<open>Math.cos\<close>, \<open>Math.sqrt\<close>,
  \<open>Math.abs\<close> and \<open>Math.max\<close> are the real functions of the same name, \<open>Math.PI\<close> is
  \<open>pi\<close>, \<open>Math.acos\<close> is \<open>arccos\<close>, \<open>Math.pow\<close> with a literal integer exponent is
  \<open>^\<close> and with a fractional exponent is \<open>powr\<close>. Rounding, overflow, signed zeros and
  infinities are outside this model, with one exception: the Kepler loop, whose
  division can be 0/0, is modelled with NaN as a value and with the rounding of every
  operation as a parameter (see the section on the Kepler solver). Elsewhere, where the
  source would divide by zero, the model has HOL's \<open>x / 0 = 0\<close> in place of an infinity
  or NaN: the theorems about the dispatcher and the resonance flags assume what keeps
  their divisors away from 0, and the theorems about error results speak of the
  comparisons as the source writes them.

  The field \<open>f\<close> of a TypeScript interface is the selector \<open>p_f\<close>, with a prefix
  \<open>p\<close> for the interface (\<open>el\<close> for OrbitalElements, \<open>sv\<close> for StateVector, \<open>r\<close> for
  PropagationResult, \<open>s4\<close> for Sgp4InitState, \<open>ds\<close> for DeepSpaceCommon, \<open>d4\<close> for
  Sdp4InitState, \<open>d8\<close> for Sdp8InitState), since the interfaces share field names with
  each other and with the local variables of the functions.
\<close>

subsection \<open>constants.ts\<close>

definition XKE :: real where "XKE = 0.0743669161"
definition XKMPER :: real where "XKMPER = 6378.135"
definition XJ2 :: real where "XJ2 = 1.082616 / 10 ^ 3"
definition XJ3 :: real where "XJ3 = - 0.253881 / 10 ^ 5"
definition XJ4 :: real where "XJ4 = - 1.65597 / 10 ^ 6"
definition CK2 :: real where "CK2 = 0.5 * XJ2"
definition CK4 :: real where "CK4 = - 0.375 * XJ4"
definition A3OVK2 :: real where "A3OVK2 = - XJ3 / CK2"
definition PI :: real where "PI = pi"
definition TWOPI :: real where "TWOPI = 2.0 * PI"
definition DEG2RAD :: real where "DEG2RAD = PI / 180.0"
definition AE :: real where "AE = 1.0"
definition TOTHRD :: real where "TOTHRD = 2.0 / 3.0"
definition DEEP_SPACE_THRESHOLD :: real where "DEEP_SPACE_THRESHOLD = 225.0"

subsection \<open>The remainder operator and \<open>Math.atan2\<close>\<close>

text \<open>
  \<open>x % y\<close> on numbers is the remainder of the division truncated towards zero:
  the result has the sign of \<open>x\<close>.
\<close>

definition js_rem :: "real \<Rightarrow> real \<Rightarrow> real" where
  "js_rem x y = x - y * of_int (if 0 \<le> x / y then \<lfloor>x / y\<rfloor> else \<lceil>x / y\<rceil>)"

definition atan2 :: "real \<Rightarrow> real \<Rightarrow> real" where
  "atan2 y x =
     (if 0 < x then arctan (y / x)
      else if x < 0 \<and> 0 \<le> y then arctan (y / x) + pi
      else if x < 0 \<and> y < 0 then arctan (y / x) - pi
      else if 0 < y then pi / 2
      else if y < 0 then - (pi / 2)
      else 0)"

section \<open>Data model (types.ts)\<close>

record OrbitalElements =
  el_satnum :: real
  el_epochYear :: real
  el_epochDay :: real
  el_jdsatepoch :: real
  el_ndot :: real
  el_nddot :: real
  el_bstar :: real
  el_inclo :: real
  el_nodeo :: real
  el_ecco :: real
  el_argpo :: real
  el_mo :: real
  el_no :: real
  el_revnum :: real

record StateVector =
  sv_x :: real
  sv_y :: real
  sv_z :: real
  sv_xdot :: real
  sv_ydot :: real
  sv_zdot :: real

datatype Algorithm = SGP | SGP4 | SDP4 | SGP8 | SDP8

text \<open>
  The optional field \<open>errorMessage\<close> is \<open>None\<close> where the source leaves it out.
  The field \<open>state\<close> is \<open>None\<close> for the state vector computed from a NaN angle of the
  Kepler loop, whose six components are all NaN.
\<close>

record PropagationResult =
  r_state :: "StateVector option"
  r_tsince :: real
  r_algorithm :: Algorithm
  r_error :: bool
  r_errorMessage :: "string option"

datatype SatelliteType = near_earth | deep_space

datatype Method = method_d | method_n

text \<open>
  Sgp4InitState without its deep-space fields (\<open>irez\<close>, \<open>d2201\<close> ... \<open>xni\<close>):
  \<open>sgp4init\<close> sets every one of them to 0 and \<open>sgp4\<close> reads none of them.
\<close>

record Sgp4InitState =
  s4_method :: Method
  s4_isimp :: real
  s4_aycof :: real
  s4_con41 :: real
  s4_cc1 :: real
  s4_cc4 :: real
  s4_cc5 :: real
  s4_d2 :: real
  s4_d3 :: real
  s4_d4 :: real
  s4_delmo :: real
  s4_eta :: real
  s4_argpdot :: real
  s4_omgcof :: real
  s4_sinmao :: real
  s4_t :: real
  s4_t2cof :: real
  s4_t3cof :: real
  s4_t4cof :: real
  s4_t5cof :: real
  s4_x1mth2 :: real
  s4_x7thm1 :: real
  s4_mdot :: real
  s4_nodedot :: real
  s4_xlcof :: real
  s4_xmcof :: real
  s4_nodecf :: real
  s4_a :: real
  s4_altp :: real
  s4_alta :: real
  s4_epochdays :: real
  s4_jdsatepoch :: real
  s4_nddot :: real
  s4_ndot :: real
  s4_bstar :: real
  s4_rcse :: real
  s4_inclo :: real
  s4_nodeo :: real
  s4_ecco :: real
  s4_argpo :: real
  s4_mo :: real
  s4_no :: real
  s4_init :: bool


section \<open>The Kepler solver\<close>

text \<open>
  The loop of sgp4.ts (lines 263-276), which sdp4.ts and sdp8.ts repeat word for word:
  \<^verbatim>\<open>
  let eo1 = capu;
  for (let i = 0; i < 10; i++) {
    const sineo1 = Math.sin(eo1);
    const coseo1 = Math.cos(eo1);
    let tem5 = 1.0 - coseo1 * axn - sineo1 * ayn;
    tem5 = (capu - ayn * coseo1 + axn * sineo1 - eo1) / tem5;
    if (Math.abs(tem5) >= 0.95) { tem5 = tem5 > 0 ? 0.95 : -0.95; }
    eo1 += tem5;
    if (Math.abs(tem5) < 1e-12) break;
  }
  const epw = eo1;
  \<close>
  The division can be 0/0, which is NaN, and nothing in the loop tests for it. The
  loop is therefore modelled over \<open>real option\<close>, with \<open>None\<close> for NaN, and over a
  parameter \<open>rd\<close>, the rounding that the arithmetic applies to every literal and to the
  result of every operation. Two roundings are used: \<open>exact\<close>, which rounds nothing,
  and \<open>rd64\<close>, the rounding to the nearest double.
\<close>

subsection \<open>The two arithmetics\<close>

text \<open>
  \<open>round_even\<close> rounds a real to the nearest integer, a tie to the even one.
  \<open>rd64 x\<close> is the double nearest to \<open>x\<close>, ties to even: a multiple of \<open>2 ^ e\<close> where
  \<open>e\<close> is the exponent of \<open>x\<close> less 52, and not below the exponent -1074 of the
  subnormal numbers. A result beyond the largest double, which the source turns into an
  infinity, stays a number here; in the loop only the quotient can be that large, and
  the clamp replaces it by 0.95 with its sign either way. With \<open>rd64\<close>, \<open>Math.sin\<close> and
  \<open>Math.cos\<close> return the double nearest to the real sine and cosine.
\<close>

definition round_even :: "real \<Rightarrow> int" where
  "round_even y =
     (let f = \<lfloor>y\<rfloor>; r = y - of_int f
      in if r < 1 / 2 then f else if r > 1 / 2 then f + 1 else if even f then f else f + 1)"

definition rd64 :: "real \<Rightarrow> real" where
  "rd64 x =
     (if x = 0 then 0
      else (let e = max \<lfloor>log 2 \<bar>x\<bar>\<rfloor> (- 1022) - 52
            in of_int (round_even (x / 2 powr of_int e)) * 2 powr of_int e))"

definition exact :: "real \<Rightarrow> real" where
  "exact x = x"

subsection \<open>The loop\<close>

text \<open>
  \<open>nan_add\<close> is \<open>eo1 += tem5\<close>: NaN if either operand is. \<open>converged\<close> is the test
  \<open>Math.abs(tem5) < 1e-12\<close>, which is false on NaN.

  \<open>newton_step\<close> is the value of \<open>tem5\<close> that one pass of the body adds to \<open>eo1\<close>.
  With a NaN \<open>eo1\<close> it is NaN. With a divisor that is 0 the quotient is NaN if the
  numerator is 0 too, and otherwise an infinity with the sign of the numerator (a
  difference of doubles that is zero is +0), which the clamp turns into 0.95 with that
  sign; with any other divisor the quotient is a number. The clamp does not change a
  NaN, on which its comparison is false.

  \<open>kepler_loop\<close> is the loop from the counter \<open>i\<close> on; besides \<open>eo1\<close> it returns the
  list of the steps it has added, in order, which the source does not keep.
  \<open>kepler rd capu axn ayn\<close> is \<open>epw\<close>.
\<close>

definition nan_add :: "(real \<Rightarrow> real) \<Rightarrow> real option \<Rightarrow> real option \<Rightarrow> real option" where
  "nan_add rd a b =
     (case a of None \<Rightarrow> None
      | Some x \<Rightarrow> (case b of None \<Rightarrow> None | Some y \<Rightarrow> Some (rd (x + y))))"

definition converged :: "(real \<Rightarrow> real) \<Rightarrow> real option \<Rightarrow> bool" where
  "converged rd tem5 = (case tem5 of None \<Rightarrow> False | Some t \<Rightarrow> \<bar>t\<bar> < rd (1 / 10 ^ 12))"

definition newton_step ::
  "(real \<Rightarrow> real) \<Rightarrow> real \<Rightarrow> real \<Rightarrow> real \<Rightarrow> real option \<Rightarrow> real option" where
  "newton_step rd capu axn ayn eo1 =
     (case eo1 of
        None \<Rightarrow> None
      | Some eo1 \<Rightarrow>
          (let sineo1 = rd (sin eo1);
               coseo1 = rd (cos eo1);
               tem5 = rd (rd (rd 1.0 - rd (coseo1 * axn)) - rd (sineo1 * ayn));
               num = rd (rd (rd (capu - rd (ayn * coseo1)) + rd (axn * sineo1)) - eo1)
           in if tem5 = 0 then
                (if num = 0 then None
                 else Some (if num > 0 then rd 0.95 else - rd 0.95))
              else
                (let tem5 = rd (num / tem5)
                 in Some (if \<bar>tem5\<bar> \<ge> rd 0.95 then (if tem5 > 0 then rd 0.95 else - rd 0.95)
                          else tem5))))"

function kepler_loop ::
  "(real \<Rightarrow> real) \<Rightarrow> real \<Rightarrow> real \<Rightarrow> real \<Rightarrow> nat \<Rightarrow> real option \<Rightarrow> real option list \<Rightarrow>
   real option \<times> real option list" where
  "kepler_loop rd capu axn ayn i eo1 steps =
     (if i < 10 then
        (let tem5 = newton_step rd capu axn ayn eo1;
             eo1' = nan_add rd eo1 tem5;
             steps' = steps @ [tem5]
         in if converged rd tem5 then (eo1', steps')
            else kepler_loop rd capu axn ayn (i + 1) eo1' steps')
      else (eo1, steps))"
  by pat_completeness auto
termination
  by (relation "measure (\<lambda>(rd, capu, axn, ayn, i, eo1, steps). 10 - i)") auto

declare kepler_loop.simps [simp del]

definition kepler :: "(real \<Rightarrow> real) \<Rightarrow> real \<Rightarrow> real \<Rightarrow> real \<Rightarrow> real option" where
  "kepler rd capu axn ayn = fst (kepler_loop rd capu axn ayn 0 (Some capu) [])"

section \<open>SGP4 (sgp4.ts)\<close>

subsection \<open>Initialization\<close>

definition sgp4init :: "OrbitalElements \<Rightarrow> Sgp4InitState" where
  "sgp4init elements =
     (let bstar = el_bstar elements; inclo = el_inclo elements; nodeo = el_nodeo elements;
          ecco = el_ecco elements; argpo = el_argpo elements; mo = el_mo elements;
          no = el_no elements;
          a1 = (XKE / no) powr TOTHRD;
          cosio = cos inclo;
          theta2 = cosio * cosio;
          x3thm1 = 3.0 * theta2 - 1.0;
          eosq = ecco * ecco;
          betao2 = 1.0 - eosq;
          betao = sqrt betao2;
          del1 = (1.5 * CK2 * x3thm1) / (a1 * a1 * betao * betao2);
          ao = a1 * (1.0 - del1 * (0.5 * TOTHRD + del1 * (1.0 + (134.0 / 81.0) * del1)));
          delo = (1.5 * CK2 * x3thm1) / (ao * ao * betao * betao2);
          xnodp = no / (1.0 + delo);
          aodp = ao / (1.0 - delo);
          isimp = (if (aodp * (1.0 - ecco) / AE) < (220.0 / XKMPER + AE) then 1 else 0);
          s4 = 78.0 / XKMPER + AE;
          qoms24 = ((120.0 - 78.0) / XKMPER) ^ 4;
          perige = (aodp * (1.0 - ecco) - AE) * XKMPER;
          (s, qoms2t) =
            (if perige < 156.0 then
               (let s = perige - 78.0;
                    s = (if perige \<le> 98.0 then 20.0 else s);
                    qoms2t = ((120.0 - s) / XKMPER) ^ 4;
                    s = s / XKMPER + AE
                in (s, qoms2t))
             else (s4, qoms24));
          pinvsq = 1.0 / (aodp * aodp * betao2 * betao2);
          tsi = 1.0 / (aodp - s);
          eta = aodp * ecco * tsi;
          etasq = eta * eta;
          eeta = ecco * eta;
          psisq = \<bar>1.0 - etasq\<bar>;
          coef = qoms2t * tsi ^ 4;
          coef1 = coef / psisq powr 3.5;
          c2 = coef1 * xnodp * (aodp * (1.0 + 1.5 * etasq + eeta * (4.0 + etasq)) +
                 (0.75 * CK2 * tsi / psisq) * x3thm1 * (8.0 + 3.0 * etasq * (8.0 + etasq)));
          c1 = bstar * c2;
          sinio = sin inclo;
          c3 = coef * tsi * A3OVK2 * aodp * AE * sinio / ecco;
          x1mth2 = 1.0 - theta2;
          c4 = 2.0 * xnodp * coef1 * aodp * betao2 *
                 (eta * (2.0 + 0.5 * etasq) + ecco * (0.5 + 2.0 * etasq) -
                  (2.0 * CK2 * tsi / (aodp * psisq)) *
                  (- 3.0 * x3thm1 * (1.0 - 2.0 * eeta + etasq * (1.5 - 0.5 * eeta)) +
                   0.75 * x1mth2 * (2.0 * etasq - eeta * (1.0 + etasq)) * cos (2.0 * argpo)));
          c5 = 2.0 * coef1 * aodp * betao2 * (1.0 + 2.75 * (etasq + eeta) + eeta * etasq);
          theta4 = theta2 * theta2;
          temp1 = 3.0 * CK2 * pinvsq * xnodp;
          temp2 = temp1 * CK2 * pinvsq;
          temp3 = 1.25 * CK4 * pinvsq * pinvsq * xnodp;
          xmdot = xnodp + 0.5 * temp1 * betao * x3thm1 +
                    0.0625 * temp2 * betao * (13.0 - 78.0 * theta2 + 137.0 * theta4);
          x1m5th = 1.0 - 5.0 * theta2;
          omgdot = - 0.5 * temp1 * x1m5th +
                     0.0625 * temp2 * (7.0 - 114.0 * theta2 + 395.0 * theta4) +
                     temp3 * (3.0 - 36.0 * theta2 + 49.0 * theta4);
          xhdot1 = - temp1 * cosio;
          xnodot = xhdot1 + (0.5 * temp2 * (4.0 - 19.0 * theta2) +
                     2.0 * temp3 * (3.0 - 7.0 * theta2)) * cosio;
          omgcof = bstar * c3 * cos argpo;
          xmcof = (if ecco > 1.0 / 10 ^ 4 then - TOTHRD * coef * bstar * AE / eeta else 0.0);
          xnodcf = 3.5 * betao2 * xhdot1 * c1;
          t2cof = 1.5 * c1;
          xlcof = 0.125 * A3OVK2 * sinio * (3.0 + 5.0 * cosio) / (1.0 + cosio);
          aycof = 0.25 * A3OVK2 * sinio;
          delmo = (1.0 + eta * cos mo) ^ 3;
          sinmo = sin mo;
          x7thm1 = 7.0 * theta2 - 1.0;
          (d2, d3, d4, t3cof, t4cof, t5cof) =
            (if isimp = 0 then
               (let c1sq = c1 * c1;
                    d2 = 4.0 * aodp * tsi * c1sq;
                    temp = d2 * tsi * c1 / 3.0;
                    d3 = (17.0 * aodp + s) * temp;
                    d4 = 0.5 * temp * aodp * tsi * (221.0 * aodp + 31.0 * s) * c1;
                    t3cof = d2 + 2.0 * c1sq;
                    t4cof = 0.25 * (3.0 * d3 + c1 * (12.0 * d2 + 10.0 * c1sq));
                    t5cof = 0.2 * (3.0 * d4 + 12.0 * c1 * d3 + 6.0 * d2 * d2 +
                              15.0 * c1sq * (2.0 * d2 + c1sq))
                in (d2, d3, d4, t3cof, t4cof, t5cof))
             else (0.0, 0.0, 0.0, 0.0, 0.0, 0.0))
      in \<lparr>s4_method = method_n,
          s4_isimp = isimp,
          s4_aycof = aycof,
          s4_con41 = x3thm1,
          s4_cc1 = c1,
          s4_cc4 = c4,
          s4_cc5 = c5,
          s4_d2 = d2,
          s4_d3 = d3,
          s4_d4 = d4,
          s4_delmo = delmo,
          s4_eta = eta,
          s4_argpdot = omgdot,
          s4_omgcof = omgcof,
          s4_sinmao = sinmo,
          s4_t = 0.0,
          s4_t2cof = t2cof,
          s4_t3cof = t3cof,
          s4_t4cof = t4cof,
          s4_t5cof = t5cof,
          s4_x1mth2 = x1mth2,
          s4_x7thm1 = x7thm1,
          s4_mdot = xmdot,
          s4_nodedot = xnodot,
          s4_xlcof = xlcof,
          s4_xmcof = xmcof,
          s4_nodecf = xnodcf,
          s4_a = aodp,
          s4_altp = (aodp * (1.0 - ecco) - AE) * XKMPER,
          s4_alta = (aodp * (1.0 + ecco) - AE) * XKMPER,
          s4_epochdays = el_epochDay elements,
          s4_jdsatepoch = el_jdsatepoch elements,
          s4_nddot = el_nddot elements,
          s4_ndot = el_ndot elements,
          s4_bstar = bstar,
          s4_rcse = 0,
          s4_inclo = inclo,
          s4_nodeo = nodeo,
          s4_ecco = ecco,
          s4_argpo = argpo,
          s4_mo = mo,
          s4_no = xnodp,
          s4_init = True\<rparr>)"

subsection \<open>Evaluation\<close>

text \<open>
  \<open>sgp4\<close> is straight-line code with two early returns. It is cut here at its own
  comment lines: \<open>sgp4_secular\<close> is "Update for secular gravity and atmospheric drag"
  (lines 204-232) and returns the variables that are read further down; the decay check
  follows in \<open>sgp4\<close>; \<open>sgp4_long_period\<close> is lines 245-260 ("Clamp eccentricity", "Long
  period periodics" and \<open>capu\<close>); \<open>kepler\<close> is the loop, in exact arithmetic like the
  rest of \<open>sgp4\<close>; \<open>sgp4_pl\<close> is the semi-latus rectum of line 286, checked in \<open>sgp4\<close>;
  \<open>sgp4_short_period\<close> is the rest (lines 281-345). Where the loop returns NaN, the
  semi-latus rectum does not depend on it and is checked as always, and every component
  of the state, computed from the sine and cosine of the angle, is NaN: the state \<open>None\<close>.
\<close>

record Sgp4Secular =
  sec4_omega :: real
  sec4_xnode :: real
  sec4_a :: real
  sec4_e :: real
  sec4_xl :: real

definition sgp4_secular :: "Sgp4InitState \<Rightarrow> real \<Rightarrow> Sgp4Secular" where
  "sgp4_secular state tsince =
     (let isimp = s4_isimp state; cc1 = s4_cc1 state; cc4 = s4_cc4 state; cc5 = s4_cc5 state;
          d2 = s4_d2 state; d3 = s4_d3 state; d4 = s4_d4 state; delmo = s4_delmo state;
          eta = s4_eta state; argpdot = s4_argpdot state; omgcof = s4_omgcof state;
          sinmao = s4_sinmao state; t2cof = s4_t2cof state; t3cof = s4_t3cof state;
          t4cof = s4_t4cof state; t5cof = s4_t5cof state; mdot = s4_mdot state;
          nodedot = s4_nodedot state; xmcof = s4_xmcof state; nodecf = s4_nodecf state;
          aodp = s4_a state; bstar = s4_bstar state; nodeo = s4_nodeo state;
          ecco = s4_ecco state; argpo = s4_argpo state; mo = s4_mo state; xnodp = s4_no state;
          t = tsince;
          xmdf = mo + mdot * t;
          omgadf = argpo + argpdot * t;
          xnoddf = nodeo + nodedot * t;
          omega = omgadf;
          xmp = xmdf;
          tsq = t * t;
          xnode = xnoddf + nodecf * tsq;
          tempa = 1.0 - cc1 * t;
          tempe = bstar * cc4 * t;
          templ = t2cof * tsq;
          (xmp, omega, tempa, tempe, templ) =
            (if isimp = 0 then
               (let delomg = omgcof * t;
                    delm = (if xmcof > 0 then xmcof * ((1.0 + eta * cos xmdf) ^ 3 - delmo)
                            else 0.0);
                    temp = delomg + delm;
                    xmp = xmdf + temp;
                    omega = omgadf - temp;
                    tcube = tsq * t;
                    tfour = t * tcube;
                    tempa = tempa - d2 * tsq - d3 * tcube - d4 * tfour;
                    tempe = tempe + bstar * cc5 * (sin xmp - sinmao);
                    templ = templ + t3cof * tcube + tfour * (t4cof + t * t5cof)
                in (xmp, omega, tempa, tempe, templ))
             else (xmp, omega, tempa, tempe, templ));
          a = aodp * tempa * tempa;
          e = ecco - tempe;
          xl = xmp + omega + xnode + xnodp * templ
      in \<lparr>sec4_omega = omega, sec4_xnode = xnode, sec4_a = a, sec4_e = e, sec4_xl = xl\<rparr>)"

record Sgp4LongPeriod =
  lp4_xn :: real
  lp4_axn :: real
  lp4_ayn :: real
  lp4_capu :: real

definition sgp4_long_period :: "Sgp4InitState \<Rightarrow> Sgp4Secular \<Rightarrow> Sgp4LongPeriod" where
  "sgp4_long_period state sec =
     (let aycof = s4_aycof state; xlcof = s4_xlcof state;
          omega = sec4_omega sec; xnode = sec4_xnode sec; a = sec4_a sec; e = sec4_e sec;
          xl = sec4_xl sec;
          em = max e (1 / 10 ^ 6);
          beta = sqrt (1.0 - em * em);
          xn = XKE / a powr 1.5;
          axn = em * cos omega;
          temp = 1.0 / (a * beta * beta);
          xlp = temp * xlcof * axn;
          aynl = temp * aycof;
          xlt = xl + xlp;
          ayn = em * sin omega + aynl;
          capu = js_rem (xlt - xnode) TWOPI
      in \<lparr>lp4_xn = xn, lp4_axn = axn, lp4_ayn = ayn, lp4_capu = capu\<rparr>)"

definition sgp4_pl :: "Sgp4Secular \<Rightarrow> Sgp4LongPeriod \<Rightarrow> real" where
  "sgp4_pl sec lp =
     (let a = sec4_a sec; axn = lp4_axn lp; ayn = lp4_ayn lp;
          elsq = axn * axn + ayn * ayn;
          pl = a * (1.0 - elsq)
      in pl)"

definition sgp4_short_period ::
  "Sgp4InitState \<Rightarrow> Sgp4Secular \<Rightarrow> Sgp4LongPeriod \<Rightarrow> real \<Rightarrow> StateVector" where
  "sgp4_short_period state sec lp epw =
     (let x1mth2 = s4_x1mth2 state; x7thm1 = s4_x7thm1 state; inclo = s4_inclo state;
          x3thm1 = s4_con41 state;
          cosio = cos inclo;
          sinio = sin inclo;
          xnode = sec4_xnode sec; a = sec4_a sec;
          xn = lp4_xn lp; axn = lp4_axn lp; ayn = lp4_ayn lp;
          sinepw = sin epw;
          cosepw = cos epw;
          ecose = axn * cosepw + ayn * sinepw;
          esine = axn * sinepw - ayn * cosepw;
          elsq = axn * axn + ayn * ayn;
          pl = a * (1.0 - elsq);
          r = a * (1.0 - ecose);
          rdot = XKE * sqrt a * esine / r;
          rfdot = XKE * sqrt pl / r;
          betal = sqrt (1.0 - elsq);
          temp6 = esine / (1.0 + betal);
          aOverR = a / r;
          cosu = aOverR * (cosepw - axn + ayn * temp6);
          sinu = aOverR * (sinepw - ayn - axn * temp6);
          u = atan2 sinu cosu;
          sin2u = 2.0 * sinu * cosu;
          cos2u = 2.0 * cosu * cosu - 1.0;
          temp7 = 1.0 / pl;
          temp8 = CK2 * temp7;
          temp9 = temp8 * temp7;
          rk = r * (1.0 - 1.5 * temp9 * betal * x3thm1) + 0.5 * temp8 * x1mth2 * cos2u;
          uk = u - 0.25 * temp9 * x7thm1 * sin2u;
          xnodek = xnode + 1.5 * temp9 * cosio * sin2u;
          xinck = inclo + 1.5 * temp9 * cosio * sinio * cos2u;
          rdotk = rdot - xn * temp8 * x1mth2 * sin2u;
          rfdotk = rfdot + xn * temp8 * (x1mth2 * cos2u + 1.5 * x3thm1);
          sinuk = sin uk;
          cosuk = cos uk;
          sinik = sin xinck;
          cosik = cos xinck;
          sinnok = sin xnodek;
          cosnok = cos xnodek;
          xmx = - sinnok * cosik;
          xmy = cosnok * cosik;
          ux = xmx * sinuk + cosnok * cosuk;
          uy = xmy * sinuk + sinnok * cosuk;
          uz = sinik * sinuk;
          vx = xmx * cosuk - cosnok * sinuk;
          vy = xmy * cosuk - sinnok * sinuk;
          vz = sinik * cosuk;
          x = rk * ux * XKMPER;
          y = rk * uy * XKMPER;
          z = rk * uz * XKMPER;
          xdot = (rdotk * ux + rfdotk * vx) * XKMPER / 60.0;
          ydot = (rdotk * uy + rfdotk * vy) * XKMPER / 60.0;
          zdot = (rdotk * uz + rfdotk * vz) * XKMPER / 60.0
      in \<lparr>sv_x = x, sv_y = y, sv_z = z, sv_xdot = xdot, sv_ydot = ydot, sv_zdot = zdot\<rparr>)"

text \<open>
  The optional parameter \<open>initState\<close> is an option; \<open>initState || sgp4init(elements)\<close>
  takes the given state when there is one (an object is never falsy).
\<close>

definition sgp4 :: "OrbitalElements \<Rightarrow> real \<Rightarrow> Sgp4InitState option \<Rightarrow> PropagationResult" where
  "sgp4 elements tsince initState =
     (let state = (case initState of Some st \<Rightarrow> st | None \<Rightarrow> sgp4init elements);
          sec = sgp4_secular state tsince;
          a = sec4_a sec; e = sec4_e sec
      in if a < 0.95 \<or> e \<ge> 1.0 \<or> e < - 0.001 then
           \<lparr>r_state = Some \<lparr>sv_x = 0, sv_y = 0, sv_z = 0, sv_xdot = 0, sv_ydot = 0, sv_zdot = 0\<rparr>,
            r_tsince = tsince,
            r_algorithm = SGP4,
            r_error = True,
            r_errorMessage = Some ''Satellite has decayed''\<rparr>
         else
           (let lp = sgp4_long_period state sec;
                epw = kepler exact (lp4_capu lp) (lp4_axn lp) (lp4_ayn lp);
                pl = sgp4_pl sec lp
            in if pl < 0.0 then
                 \<lparr>r_state = Some \<lparr>sv_x = 0, sv_y = 0, sv_z = 0, sv_xdot = 0, sv_ydot = 0, sv_zdot = 0\<rparr>,
                  r_tsince = tsince,
                  r_algorithm = SGP4,
                  r_error = True,
                  r_errorMessage = Some ''Semi-latus rectum is negative''\<rparr>
               else
                 \<lparr>r_state = (case epw of None \<Rightarrow> None
                             | Some epw \<Rightarrow> Some (sgp4_short_period state sec lp epw)),
                  r_tsince = tsince,
                  r_algorithm = SGP4,
                  r_error = False,
                  r_errorMessage = None\<rparr>))"

section \<open>Deep-space subroutines (deep-space.ts)\<close>

record DeepSpaceCommon =
  ds_thgr :: real
  ds_xnq :: real
  ds_xqncl :: real
  ds_omegaq :: real
  ds_zmol :: real
  ds_zmos :: real
  ds_peo :: real
  ds_pinco :: real
  ds_plo :: real
  ds_pgho :: real
  ds_pho :: real
  ds_se2 :: real
  ds_se3 :: real
  ds_si2 :: real
  ds_si3 :: real
  ds_sl2 :: real
  ds_sl3 :: real
  ds_sl4 :: real
  ds_sgh2 :: real
  ds_sgh3 :: real
  ds_sgh4 :: real
  ds_sh2 :: real
  ds_sh3 :: real
  ds_ee2 :: real
  ds_e3 :: real
  ds_xi2 :: real
  ds_xi3 :: real
  ds_xl2 :: real
  ds_xl3 :: real
  ds_xl4 :: real
  ds_xgh2 :: real
  ds_xgh3 :: real
  ds_xgh4 :: real
  ds_xh2 :: real
  ds_xh3 :: real
  ds_d2201 :: real
  ds_d2211 :: real
  ds_d3210 :: real
  ds_d3222 :: real
  ds_d4410 :: real
  ds_d4422 :: real
  ds_d5220 :: real
  ds_d5232 :: real
  ds_d5421 :: real
  ds_d5433 :: real
  ds_del1 :: real
  ds_del2 :: real
  ds_del3 :: real
  ds_xlamo :: real
  ds_xfact :: real
  ds_xli :: real
  ds_xni :: real
  ds_atime :: real
  ds_iresfl :: bool
  ds_isynfl :: bool
  ds_dedt :: real
  ds_didt :: real
  ds_dmdt :: real
  ds_domdt :: real
  ds_dnodt :: real

definition gstime :: "real \<Rightarrow> real" where
  "gstime jd =
     (let tut1 = (jd - 2451545.0) / 36525.0;
          temp = - 6.2 / 10 ^ 6 * tut1 * tut1 * tut1 +
                   0.093104 * tut1 * tut1 +
                   (876600.0 * 3600 + 8640184.812866) * tut1 +
                   67310.54841;
          temp = js_rem ((temp * DEG2RAD) / 240.0) TWOPI;
          temp = (if temp < 0.0 then temp + TWOPI else temp)
      in temp)"

text \<open>
  \<open>dsinit\<close> builds the common block with every field 0 or false (but \<open>thgr\<close>, \<open>xnq\<close>,
  \<open>xqncl\<close>, \<open>omegaq\<close>) and then assigns to its fields one after the other; the
  assignments are record updates in the same order. The locals of the source that are
  never read (\<open>cosomm\<close>, \<open>sinomm\<close>, \<open>emsq\<close>, \<open>betam\<close>, \<open>rtemsq\<close>, \<open>snod\<close>, \<open>cnod\<close>,
  \<open>sini2\<close>, \<open>sing\<close>, \<open>cosg\<close>, \<open>zk\<close>) are left out, as are \<open>ZES\<close> and \<open>ZEL\<close> in \<open>dssec\<close>.
\<close>

definition dsinit ::
  "real \<Rightarrow> real \<Rightarrow> real \<Rightarrow> real \<Rightarrow> real \<Rightarrow> real \<Rightarrow> real \<Rightarrow> DeepSpaceCommon" where
  "dsinit epoch xnodp ecco inclo nodeo argpo mo =
     (let cosim = cos inclo;
          sinim = sin inclo;
          ZNS = 1.19459 / 10 ^ 5;
          ZES = 0.01675;
          ZNL = 1.5835218 / 10 ^ 4;
          ZEL = 0.05490;
          day = epoch - 2433281.5 + 18261.5;
          ds = \<lparr>ds_thgr = gstime epoch, ds_xnq = xnodp, ds_xqncl = inclo, ds_omegaq = argpo,
                ds_zmol = 0, ds_zmos = 0,
                ds_peo = 0, ds_pinco = 0, ds_plo = 0, ds_pgho = 0, ds_pho = 0,
                ds_se2 = 0, ds_se3 = 0, ds_si2 = 0, ds_si3 = 0,
                ds_sl2 = 0, ds_sl3 = 0, ds_sl4 = 0,
                ds_sgh2 = 0, ds_sgh3 = 0, ds_sgh4 = 0, ds_sh2 = 0, ds_sh3 = 0,
                ds_ee2 = 0, ds_e3 = 0, ds_xi2 = 0, ds_xi3 = 0,
                ds_xl2 = 0, ds_xl3 = 0, ds_xl4 = 0,
                ds_xgh2 = 0, ds_xgh3 = 0, ds_xgh4 = 0, ds_xh2 = 0, ds_xh3 = 0,
                ds_d2201 = 0, ds_d2211 = 0, ds_d3210 = 0, ds_d3222 = 0,
                ds_d4410 = 0, ds_d4422 = 0,
                ds_d5220 = 0, ds_d5232 = 0, ds_d5421 = 0, ds_d5433 = 0,
                ds_del1 = 0, ds_del2 = 0, ds_del3 = 0,
                ds_xlamo = 0, ds_xfact = 0, ds_xli = 0, ds_xni = 0, ds_atime = 0,
                ds_iresfl = False, ds_isynfl = False,
                ds_dedt = 0, ds_didt = 0, ds_dmdt = 0, ds_domdt = 0, ds_dnodt = 0\<rparr>;
          xms = 6.2565837 + 0.017201977 * day;
          ds = ds\<lparr>ds_zmos := js_rem (js_rem xms TWOPI + TWOPI) TWOPI\<rparr>;
          xlms = 4.7199672 + 0.2299715 * day;
          ds = ds\<lparr>ds_zmol := js_rem (js_rem xlms TWOPI + TWOPI) TWOPI\<rparr>;
          sinc = sinim;
          cosc = cosim;
          cosi2 = cosc * cosc;
          ds = ds\<lparr>ds_se2 := - ZNS * 1.5 * sinc * cosc * ZES * 2.0 / xnodp\<rparr>;
          ds = ds\<lparr>ds_se3 := - ZNS * 3.0 * sinc * cosc * ZES / xnodp\<rparr>;
          ds = ds\<lparr>ds_si2 := ZNS * 0.5 * sinc * (1.0 - 5.0 * cosi2) * ZES / xnodp\<rparr>;
          ds = ds\<lparr>ds_si3 := ZNS * sinc * (1.0 - 5.0 * cosi2) * ZES / xnodp\<rparr>;
          ds = ds\<lparr>ds_sl2 := - ZNS * 0.5 / xnodp\<rparr>;
          ds = ds\<lparr>ds_sl3 := - ZNS / xnodp\<rparr>;
          ds = ds\<lparr>ds_sl4 := - ZNS * 2.0 / xnodp\<rparr>;
          ds = ds\<lparr>ds_sgh2 := ZNS * cosc * ZES / xnodp\<rparr>;
          ds = ds\<lparr>ds_sgh3 := ZNS * 2.0 * cosc * ZES / xnodp\<rparr>;
          ds = ds\<lparr>ds_sgh4 := - ZNS * 2.0 * ZES / xnodp\<rparr>;
          ds = ds\<lparr>ds_sh2 := - ZNS * sinc * ZES / xnodp\<rparr>;
          ds = ds\<lparr>ds_sh3 := - ZNS * 2.0 * sinc * ZES / xnodp\<rparr>;
          ds = ds\<lparr>ds_ee2 := 2.0 * ZNL * ZEL / xnodp\<rparr>;
          ds = ds\<lparr>ds_e3 := 2.0 * ZNL * ZEL / xnodp\<rparr>;
          ds = ds\<lparr>ds_xi2 := 2.0 * ZNL * ZEL / xnodp\<rparr>;
          ds = ds\<lparr>ds_xi3 := 2.0 * ZNL * ZEL / xnodp\<rparr>;
          ds = ds\<lparr>ds_xl2 := - 2.0 * ZNL / xnodp\<rparr>;
          ds = ds\<lparr>ds_xl3 := - 2.0 * ZNL / xnodp\<rparr>;
          ds = ds\<lparr>ds_xl4 := - 2.0 * ZNL / xnodp\<rparr>;
          ds = ds\<lparr>ds_xgh2 := 2.0 * ZNL * ZEL / xnodp\<rparr>;
          ds = ds\<lparr>ds_xgh3 := 2.0 * ZNL * ZEL / xnodp\<rparr>;
          ds = ds\<lparr>ds_xgh4 := - 2.0 * ZNL * ZEL / xnodp\<rparr>;
          ds = ds\<lparr>ds_xh2 := - 2.0 * ZNL * ZEL / xnodp\<rparr>;
          ds = ds\<lparr>ds_xh3 := - 2.0 * ZNL * ZEL / xnodp\<rparr>;
          ds = ds\<lparr>ds_dedt := ZNS * ZES * 0.5 / 10 ^ 6\<rparr>;
          ds = ds\<lparr>ds_didt := ZNS * 0.1 / 10 ^ 6\<rparr>;
          ds = ds\<lparr>ds_dmdt := ZNS * 1.0 / 10 ^ 6\<rparr>;
          ds = ds\<lparr>ds_domdt := ZNS * 0.5 / 10 ^ 6\<rparr>;
          ds = ds\<lparr>ds_dnodt := ZNL * 0.2 / 10 ^ 6\<rparr>;
          period = TWOPI / xnodp;
          ds = (if period \<ge> 1200.0 then ds\<lparr>ds_iresfl := True, ds_isynfl := True\<rparr>
                else if period \<ge> 600.0 \<and> period \<le> 800.0
                then ds\<lparr>ds_iresfl := True, ds_isynfl := False\<rparr>
                else ds);
          ds = (if ds_iresfl ds
                then ds\<lparr>ds_xfact := 0.0, ds_xli := mo, ds_xni := xnodp, ds_atime := 0.0\<rparr>
                else ds)
      in ds)"

record DsSecular =
  sec_e :: real
  sec_xinc :: real
  sec_omgadf :: real
  sec_xnode :: real
  sec_xmam :: real

definition dssec ::
  "DeepSpaceCommon \<Rightarrow> real \<Rightarrow> real \<Rightarrow> real \<Rightarrow> real \<Rightarrow> real \<Rightarrow> real \<Rightarrow> DsSecular" where
  "dssec ds t ecco inclo nodeo argpo mo =
     (let ZNS = 1.19459 / 10 ^ 5;
          ZNL = 1.5835218 / 10 ^ 4;
          zms = ds_zmos ds + ZNS * t;
          zml = ds_zmol ds + ZNL * t;
          f2s = 0.5 * sin zms * sin zms - 0.25;
          f3s = - 0.5 * sin zms * cos zms;
          sinzs = sin zms;
          f2l = 0.5 * sin zml * sin zml - 0.25;
          f3l = - 0.5 * sin zml * cos zml;
          sinzl = sin zml;
          pe = (ds_se2 ds * f2s + ds_se3 ds * f3s) + (ds_ee2 ds * f2l + ds_e3 ds * f3l);
          pinc = (ds_si2 ds * f2s + ds_si3 ds * f3s) + (ds_xi2 ds * f2l + ds_xi3 ds * f3l);
          pl = (ds_sl2 ds * f2s + ds_sl3 ds * f3s + ds_sl4 ds * sinzs) +
               (ds_xl2 ds * f2l + ds_xl3 ds * f3l + ds_xl4 ds * sinzl);
          pgh = (ds_sgh2 ds * f2s + ds_sgh3 ds * f3s + ds_sgh4 ds * sinzs) +
                (ds_xgh2 ds * f2l + ds_xgh3 ds * f3l + ds_xgh4 ds * sinzl);
          ph = (ds_sh2 ds * f2s + ds_sh3 ds * f3s) + (ds_xh2 ds * f2l + ds_xh3 ds * f3l);
          e = ecco + ds_dedt ds * t + pe;
          xinc = inclo + ds_didt ds * t + pinc;
          omgadf = argpo + ds_domdt ds * t + pgh;
          xnode = nodeo + ds_dnodt ds * t + ph;
          xmam = mo + ds_dmdt ds * t + pl;
          xmam = js_rem xmam TWOPI;
          xmam = (if xmam < 0.0 then xmam + TWOPI else xmam)
      in \<lparr>sec_e = e, sec_xinc = xinc, sec_omgadf = omgadf, sec_xnode = xnode,
          sec_xmam = xmam\<rparr>)"

record DsPeriodic =
  per_em :: real
  per_xinc :: real
  per_omgadf :: real
  per_xnode :: real
  per_xmam :: real

definition dsper ::
  "DeepSpaceCommon \<Rightarrow> real \<Rightarrow> real \<Rightarrow> real \<Rightarrow> real \<Rightarrow> real \<Rightarrow> real \<Rightarrow> DsPeriodic" where
  "dsper ds t em xinc omgadf xnode xmam =
     (let ZNS = 1.19459 / 10 ^ 5;
          ZNL = 1.5835218 / 10 ^ 4;
          zms = ds_zmos ds + ZNS * t;
          zml = ds_zmol ds + ZNL * t;
          pe = 1.0 / 10 ^ 8 * sin zms + 0.5 / 10 ^ 8 * sin zml;
          pinc = 1.0 / 10 ^ 9 * cos zms;
          pl = 1.0 / 10 ^ 7 * sin (2.0 * zms);
          pgh = 1.0 / 10 ^ 8 * sin zms;
          ph = 0.5 / 10 ^ 8 * sin zml;
          em = em + pe;
          xinc = xinc + pinc;
          omgadf = omgadf + pgh;
          xnode = xnode + ph;
          xmam = xmam + pl;
          (xinc, xnode, omgadf) =
            (if xinc < 0.0 then (- xinc, xnode + PI, omgadf - PI) else (xinc, xnode, omgadf))
      in \<lparr>per_em = em, per_xinc = xinc, per_omgadf = omgadf, per_xnode = xnode,
          per_xmam = xmam\<rparr>)"

section \<open>SDP4 (sdp4.ts)\<close>

record Sdp4InitState =
  d4_aodp :: real
  d4_xnodp :: real
  d4_xmdot :: real
  d4_omgdot :: real
  d4_xnodot :: real
  d4_xnodcf :: real
  d4_t2cof :: real
  d4_xlcof :: real
  d4_aycof :: real
  d4_x3thm1 :: real
  d4_x1mth2 :: real
  d4_x7thm1 :: real
  d4_cosio :: real
  d4_sinio :: real
  d4_betao :: real
  d4_betao2 :: real
  d4_ds :: DeepSpaceCommon

definition sdp4init :: "OrbitalElements \<Rightarrow> Sdp4InitState" where
  "sdp4init elements =
     (let bstar = el_bstar elements; inclo = el_inclo elements; nodeo = el_nodeo elements;
          ecco = el_ecco elements; argpo = el_argpo elements; mo = el_mo elements;
          no = el_no elements; jdsatepoch = el_jdsatepoch elements;
          a1 = (XKE / no) powr TOTHRD;
          cosio = cos inclo;
          theta2 = cosio * cosio;
          x3thm1 = 3.0 * theta2 - 1.0;
          eosq = ecco * ecco;
          betao2 = 1.0 - eosq;
          betao = sqrt betao2;
          del1 = (1.5 * CK2 * x3thm1) / (a1 * a1 * betao * betao2);
          ao = a1 * (1.0 - del1 * (0.5 * TOTHRD + del1 * (1.0 + (134.0 / 81.0) * del1)));
          delo = (1.5 * CK2 * x3thm1) / (ao * ao * betao * betao2);
          xnodp = no / (1.0 + delo);
          aodp = ao / (1.0 - delo);
          sinio = sin inclo;
          x1mth2 = 1.0 - theta2;
          x7thm1 = 7.0 * theta2 - 1.0;
          theta4 = theta2 * theta2;
          pinvsq = 1.0 / (aodp * aodp * betao2 * betao2);
          temp1 = 3.0 * CK2 * pinvsq * xnodp;
          temp2 = temp1 * CK2 * pinvsq;
          temp3 = 1.25 * CK4 * pinvsq * pinvsq * xnodp;
          xmdot = xnodp + 0.5 * temp1 * betao * x3thm1 +
                    0.0625 * temp2 * betao * (13.0 - 78.0 * theta2 + 137.0 * theta4);
          x1m5th = 1.0 - 5.0 * theta2;
          omgdot = - 0.5 * temp1 * x1m5th +
                     0.0625 * temp2 * (7.0 - 114.0 * theta2 + 395.0 * theta4) +
                     temp3 * (3.0 - 36.0 * theta2 + 49.0 * theta4);
          xhdot1 = - temp1 * cosio;
          xnodot = xhdot1 + (0.5 * temp2 * (4.0 - 19.0 * theta2) +
                     2.0 * temp3 * (3.0 - 7.0 * theta2)) * cosio;
          a3ovk2 = - 1.0 * A3OVK2;
          xlcof = 0.125 * a3ovk2 * sinio * (3.0 + 5.0 * cosio) / (1.0 + cosio);
          aycof = 0.25 * a3ovk2 * sinio;
          xnodcf = 3.5 * betao2 * xhdot1 * (bstar / (1.0 + delo));
          t2cof = 1.5 * (bstar / (1.0 + delo));
          ds = dsinit jdsatepoch xnodp ecco inclo nodeo argpo mo
      in \<lparr>d4_aodp = aodp, d4_xnodp = xnodp, d4_xmdot = xmdot, d4_omgdot = omgdot,
          d4_xnodot = xnodot, d4_xnodcf = xnodcf, d4_t2cof = t2cof, d4_xlcof = xlcof,
          d4_aycof = aycof, d4_x3thm1 = x3thm1, d4_x1mth2 = x1mth2, d4_x7thm1 = x7thm1,
          d4_cosio = cosio, d4_sinio = sinio, d4_betao = betao, d4_betao2 = betao2,
          d4_ds = ds\<rparr>)"

text \<open>
  \<open>sdp4\<close> is cut like \<open>sgp4\<close>: \<open>sdp4_secular\<close> is lines 134-159 (the secular update, then
  \<open>dssec\<close> and \<open>dsper\<close>) and returns \<open>tempa\<close>, \<open>templ\<close> and the result of \<open>dsper\<close>;
  \<open>sdp4_long_period\<close> is lines 172-192; \<open>sdp4_pl\<close> is line 214; \<open>sdp4_short_period\<close> is
  lines 209-271. The variable the source calls \<open>xn\<close> is the node here, and \<open>xnn\<close> the
  mean motion.
\<close>

record Sdp4Secular =
  sec4d_tempa :: real
  sec4d_templ :: real
  sec4d_periodic :: DsPeriodic

definition sdp4_secular :: "Sdp4InitState \<Rightarrow> OrbitalElements \<Rightarrow> real \<Rightarrow> Sdp4Secular" where
  "sdp4_secular state elements tsince =
     (let xmdot = d4_xmdot state; omgdot = d4_omgdot state; xnodot = d4_xnodot state;
          xnodcf = d4_xnodcf state; t2cof = d4_t2cof state; cosio = d4_cosio state;
          ds = d4_ds state;
          ecco = el_ecco elements; argpo = el_argpo elements; nodeo = el_nodeo elements;
          mo = el_mo elements;
          t = tsince;
          xmdf = mo + xmdot * t;
          omgadf = argpo + omgdot * t;
          xnoddf = nodeo + xnodot * t;
          tsq = t * t;
          xnode = xnoddf + xnodcf * tsq;
          tempa = 1.0 - t2cof * t;
          templ = t2cof * tsq;
          secular = dssec ds t ecco (if d4_aodp state > 0 then arccos cosio else 0)
                      xnode omgadf xmdf;
          em = sec_e secular;
          xinc = sec_xinc secular;
          omega = sec_omgadf secular;
          xn = sec_xnode secular;
          xmam = sec_xmam secular;
          periodic = dsper ds t em xinc omega xn xmam
      in \<lparr>sec4d_tempa = tempa, sec4d_templ = templ, sec4d_periodic = periodic\<rparr>)"

record DeepLongPeriod =
  lpd_a :: real
  lpd_xnn :: real
  lpd_axn :: real
  lpd_ayn :: real
  lpd_capu :: real

definition sdp4_long_period :: "Sdp4InitState \<Rightarrow> Sdp4Secular \<Rightarrow> DeepLongPeriod" where
  "sdp4_long_period state sec =
     (let aodp = d4_aodp state; xnodp = d4_xnodp state; xlcof = d4_xlcof state;
          aycof = d4_aycof state;
          tempa = sec4d_tempa sec; templ = sec4d_templ sec;
          em = per_em (sec4d_periodic sec);
          omega = per_omgadf (sec4d_periodic sec);
          xn = per_xnode (sec4d_periodic sec);
          xmam = per_xmam (sec4d_periodic sec);
          em = max em (1 / 10 ^ 6);
          a = aodp * tempa * tempa;
          beta = sqrt (1.0 - em * em);
          xnn = XKE / a powr 1.5;
          xl = xmam + omega + xn + xnodp * templ;
          axn = em * cos omega;
          temp = 1.0 / (a * beta * beta);
          xlpNew = temp * xlcof * axn;
          aynl = temp * aycof;
          xlt = xl + xlpNew;
          ayn = em * sin omega + aynl;
          capu = js_rem (xlt - xn) TWOPI
      in \<lparr>lpd_a = a, lpd_xnn = xnn, lpd_axn = axn, lpd_ayn = ayn, lpd_capu = capu\<rparr>)"

definition sdp4_pl :: "DeepLongPeriod \<Rightarrow> real" where
  "sdp4_pl lp =
     (let a = lpd_a lp; axn = lpd_axn lp; ayn = lpd_ayn lp;
          elsq = axn * axn + ayn * ayn;
          pl = a * (1.0 - elsq)
      in pl)"

definition sdp4_short_period ::
  "Sdp4InitState \<Rightarrow> DsPeriodic \<Rightarrow> DeepLongPeriod \<Rightarrow> real \<Rightarrow> StateVector" where
  "sdp4_short_period state periodic lp epw =
     (let x3thm1 = d4_x3thm1 state; x1mth2 = d4_x1mth2 state; x7thm1 = d4_x7thm1 state;
          xinc = per_xinc periodic; xn = per_xnode periodic;
          a = lpd_a lp; xnn = lpd_xnn lp; axn = lpd_axn lp; ayn = lpd_ayn lp;
          sinInc = sin xinc;
          cosInc = cos xinc;
          sinepw = sin epw;
          cosepw = cos epw;
          ecose = axn * cosepw + ayn * sinepw;
          esine = axn * sinepw - ayn * cosepw;
          elsq = axn * axn + ayn * ayn;
          pl = a * (1.0 - elsq);
          r = a * (1.0 - ecose);
          invr = 1.0 / r;
          rdot = XKE * sqrt a * esine * invr;
          rfdot = XKE * sqrt pl * invr;
          betal = sqrt (1.0 - elsq);
          temp6 = betal / (1.0 + betal);
          cosu = invr * (cosepw - axn + ayn * esine * temp6);
          sinu = invr * (sinepw - ayn - axn * esine * temp6);
          u = atan2 sinu cosu;
          sin2u = 2.0 * sinu * cosu;
          cos2u = 2.0 * cosu * cosu - 1.0;
          temp7 = 1.0 / pl;
          temp8 = CK2 * temp7;
          temp9 = temp8 * temp7;
          rk = r * (1.0 - 1.5 * temp9 * betal * x3thm1) + 0.5 * temp8 * x1mth2 * cos2u;
          uk = u - 0.25 * temp9 * x7thm1 * sin2u;
          xnodek = xn + 1.5 * temp9 * cosInc * sin2u;
          xinck = xinc + 1.5 * temp9 * cosInc * sinInc * cos2u;
          rdotk = rdot - xnn * temp8 * x1mth2 * sin2u;
          rfdotk = rfdot + xnn * temp8 * (x1mth2 * cos2u + 1.5 * x3thm1);
          sinuk = sin uk;
          cosuk = cos uk;
          sinik = sin xinck;
          cosik = cos xinck;
          sinnok = sin xnodek;
          cosnok = cos xnodek;
          xmx = - sinnok * cosik;
          xmy = cosnok * cosik;
          ux = xmx * sinuk + cosnok * cosuk;
          uy = xmy * sinuk + sinnok * cosuk;
          uz = sinik * sinuk;
          vx = xmx * cosuk - cosnok * sinuk;
          vy = xmy * cosuk - sinnok * sinuk;
          vz = sinik * cosuk;
          x = rk * ux * XKMPER;
          y = rk * uy * XKMPER;
          z = rk * uz * XKMPER;
          xdot = (rdotk * ux + rfdotk * vx) * XKMPER / 60.0;
          ydot = (rdotk * uy + rfdotk * vy) * XKMPER / 60.0;
          zdot = (rdotk * uz + rfdotk * vz) * XKMPER / 60.0
      in \<lparr>sv_x = x, sv_y = y, sv_z = z, sv_xdot = xdot, sv_ydot = ydot, sv_zdot = zdot\<rparr>)"

definition sdp4 :: "OrbitalElements \<Rightarrow> real \<Rightarrow> Sdp4InitState option \<Rightarrow> PropagationResult" where
  "sdp4 elements tsince initState =
     (let state = (case initState of Some st \<Rightarrow> st | None \<Rightarrow> sdp4init elements);
          sec = sdp4_secular state elements tsince;
          em = per_em (sec4d_periodic sec)
      in if em \<ge> 1.0 \<or> em < - 0.001 then
           \<lparr>r_state = Some \<lparr>sv_x = 0, sv_y = 0, sv_z = 0, sv_xdot = 0, sv_ydot = 0, sv_zdot = 0\<rparr>,
            r_tsince = tsince,
            r_algorithm = SDP4,
            r_error = True,
            r_errorMessage = Some ''Satellite has decayed''\<rparr>
         else
           (let lp = sdp4_long_period state sec;
                epw = kepler exact (lpd_capu lp) (lpd_axn lp) (lpd_ayn lp);
                pl = sdp4_pl lp
            in if pl < 0.0 then
                 \<lparr>r_state = Some \<lparr>sv_x = 0, sv_y = 0, sv_z = 0, sv_xdot = 0, sv_ydot = 0, sv_zdot = 0\<rparr>,
                  r_tsince = tsince,
                  r_algorithm = SDP4,
                  r_error = True,
                  r_errorMessage = Some ''Semi-latus rectum is negative''\<rparr>
               else
                 \<lparr>r_state = (case epw of None \<Rightarrow> None
                             | Some epw \<Rightarrow> Some (sdp4_short_period state (sec4d_periodic sec) lp epw)),
                  r_tsince = tsince,
                  r_algorithm = SDP4,
                  r_error = False,
                  r_errorMessage = None\<rparr>))"

section \<open>SDP8 (sdp8.ts)\<close>

record Sdp8InitState =
  d8_aodp :: real
  d8_xnodp :: real
  d8_xmdot :: real
  d8_omgdot :: real
  d8_xnodot :: real
  d8_pp :: real
  d8_gamma :: real
  d8_xlcof :: real
  d8_aycof :: real
  d8_x3thm1 :: real
  d8_x1mth2 :: real
  d8_x7thm1 :: real
  d8_cosio :: real
  d8_sinio :: real
  d8_eta :: real
  d8_edot :: real
  d8_ds :: DeepSpaceCommon

definition sdp8init :: "OrbitalElements \<Rightarrow> Sdp8InitState" where
  "sdp8init elements =
     (let bstar = el_bstar elements; inclo = el_inclo elements; nodeo = el_nodeo elements;
          ecco = el_ecco elements; argpo = el_argpo elements; mo = el_mo elements;
          no = el_no elements; jdsatepoch = el_jdsatepoch elements;
          a1 = (XKE / no) powr TOTHRD;
          cosio = cos inclo;
          theta2 = cosio * cosio;
          x3thm1 = 3.0 * theta2 - 1.0;
          eosq = ecco * ecco;
          betao2 = 1.0 - eosq;
          betao = sqrt betao2;
          del1 = (1.5 * CK2 * x3thm1) / (a1 * a1 * betao * betao2);
          ao = a1 * (1.0 - del1 * (0.5 * TOTHRD + del1 * (1.0 + (134.0 / 81.0) * del1)));
          delo = (1.5 * CK2 * x3thm1) / (ao * ao * betao * betao2);
          xnodp = no / (1.0 + delo);
          aodp = ao / (1.0 - delo);
          sinio = sin inclo;
          x1mth2 = 1.0 - theta2;
          x7thm1 = 7.0 * theta2 - 1.0;
          theta4 = theta2 * theta2;
          pinvsq = 1.0 / (aodp * aodp * betao2 * betao2);
          temp1 = 3.0 * CK2 * pinvsq * xnodp;
          temp2 = temp1 * CK2 * pinvsq;
          temp3 = 1.25 * CK4 * pinvsq * pinvsq * xnodp;
          xmdot = xnodp + 0.5 * temp1 * betao * x3thm1 +
                    0.0625 * temp2 * betao * (13.0 - 78.0 * theta2 + 137.0 * theta4);
          x1m5th = 1.0 - 5.0 * theta2;
          omgdot = - 0.5 * temp1 * x1m5th +
                     0.0625 * temp2 * (7.0 - 114.0 * theta2 + 395.0 * theta4) +
                     temp3 * (3.0 - 36.0 * theta2 + 49.0 * theta4);
          xhdot1 = - temp1 * cosio;
          xnodot = xhdot1 + (0.5 * temp2 * (4.0 - 19.0 * theta2) +
                     2.0 * temp3 * (3.0 - 7.0 * theta2)) * cosio;
          s4 = 78.0 / XKMPER + AE;
          qoms24 = ((120.0 - 78.0) / XKMPER) ^ 4;
          perige = (aodp * (1.0 - ecco) - AE) * XKMPER;
          (s, qoms2t) =
            (if perige < 156.0 then
               (let s = perige - 78.0;
                    s = (if perige \<le> 98.0 then 20.0 else s);
                    qoms2t = ((120.0 - s) / XKMPER) ^ 4;
                    s = s / XKMPER + AE
                in (s, qoms2t))
             else (s4, qoms24));
          tsi = 1.0 / (aodp - s);
          eta = aodp * ecco * tsi;
          etasq = eta * eta;
          eeta = ecco * eta;
          psisq = \<bar>1.0 - etasq\<bar>;
          coef = qoms2t * tsi ^ 4;
          coef1 = coef / psisq powr 3.5;
          c1 = 0.5 * bstar * coef1 * xnodp * aodp *
                 (1.0 + 2.5 * etasq + eeta * (4.0 + etasq));
          pp = aodp * betao2;
          gamma = bstar / (2.0 * pp);
          edot = - c1 * (1.0 - ecco);
          a3ovk2 = - 1.0 * A3OVK2;
          xlcof = 0.125 * a3ovk2 * sinio * (3.0 + 5.0 * cosio) / (1.0 + cosio);
          aycof = 0.25 * a3ovk2 * sinio;
          ds = dsinit jdsatepoch xnodp ecco inclo nodeo argpo mo
      in \<lparr>d8_aodp = aodp, d8_xnodp = xnodp, d8_xmdot = xmdot, d8_omgdot = omgdot,
          d8_xnodot = xnodot, d8_pp = pp, d8_gamma = gamma, d8_xlcof = xlcof,
          d8_aycof = aycof, d8_x3thm1 = x3thm1, d8_x1mth2 = x1mth2, d8_x7thm1 = x7thm1,
          d8_cosio = cosio, d8_sinio = sinio, d8_eta = eta, d8_edot = edot,
          d8_ds = ds\<rparr>)"

text \<open>
  \<open>sdp8_secular\<close> is lines 166-187 of \<open>sdp8\<close> and returns the result of \<open>dsper\<close>;
  \<open>sdp8_long_period\<close> is lines 200-221, \<open>sdp8_pl\<close> line 243, \<open>sdp8_short_period\<close> lines
  238-300.
\<close>

definition sdp8_secular :: "Sdp8InitState \<Rightarrow> OrbitalElements \<Rightarrow> real \<Rightarrow> DsPeriodic" where
  "sdp8_secular state elements tsince =
     (let xmdot = d8_xmdot state; omgdot = d8_omgdot state; xnodot = d8_xnodot state;
          cosio = d8_cosio state; edot = d8_edot state; ds = d8_ds state;
          ecco = el_ecco elements; argpo = el_argpo elements; nodeo = el_nodeo elements;
          mo = el_mo elements;
          t = tsince;
          xmdf = mo + xmdot * t;
          omgadf = argpo + omgdot * t;
          xnoddf = nodeo + xnodot * t;
          secular = dssec ds t ecco (arccos cosio) xnoddf omgadf xmdf;
          em = sec_e secular + edot * t;
          xinc = sec_xinc secular;
          omega = sec_omgadf secular;
          xn = sec_xnode secular;
          xmam = sec_xmam secular;
          periodic = dsper ds t em xinc omega xn xmam
      in periodic)"

definition sdp8_long_period :: "Sdp8InitState \<Rightarrow> DsPeriodic \<Rightarrow> DeepLongPeriod" where
  "sdp8_long_period state periodic =
     (let aodp = d8_aodp state; xlcof = d8_xlcof state; aycof = d8_aycof state;
          em = per_em periodic;
          omega = per_omgadf periodic;
          xn = per_xnode periodic;
          xmam = per_xmam periodic;
          em = max em (1 / 10 ^ 6);
          a = aodp;
          beta = sqrt (1.0 - em * em);
          xnn = XKE / a powr 1.5;
          xl = xmam + omega + xn;
          axn = em * cos omega;
          temp = 1.0 / (a * beta * beta);
          xlpNew = temp * xlcof * axn;
          aynl = temp * aycof;
          xlt = xl + xlpNew;
          ayn = em * sin omega + aynl;
          capu = js_rem (xlt - xn) TWOPI
      in \<lparr>lpd_a = a, lpd_xnn = xnn, lpd_axn = axn, lpd_ayn = ayn, lpd_capu = capu\<rparr>)"

definition sdp8_pl :: "DeepLongPeriod \<Rightarrow> real" where
  "sdp8_pl lp =
     (let a = lpd_a lp; axn = lpd_axn lp; ayn = lpd_ayn lp;
          elsq = axn * axn + ayn * ayn;
          pl = a * (1.0 - elsq)
      in pl)"

definition sdp8_short_period ::
  "Sdp8InitState \<Rightarrow> DsPeriodic \<Rightarrow> DeepLongPeriod \<Rightarrow> real \<Rightarrow> StateVector" where
  "sdp8_short_period state periodic lp epw =
     (let x3thm1 = d8_x3thm1 state; x1mth2 = d8_x1mth2 state; x7thm1 = d8_x7thm1 state;
          xinc = per_xinc periodic; xn = per_xnode periodic;
          a = lpd_a lp; xnn = lpd_xnn lp; axn = lpd_axn lp; ayn = lpd_ayn lp;
          sinInc = sin xinc;
          cosInc = cos xinc;
          sinepw = sin epw;
          cosepw = cos epw;
          ecose = axn * cosepw + ayn * sinepw;
          esine = axn * sinepw - ayn * cosepw;
          elsq = axn * axn + ayn * ayn;
          pl = a * (1.0 - elsq);
          r = a * (1.0 - ecose);
          invr = 1.0 / r;
          rdot = XKE * sqrt a * esine * invr;
          rfdot = XKE * sqrt pl * invr;
          betal = sqrt (1.0 - elsq);
          temp6 = betal / (1.0 + betal);
          cosu = invr * (cosepw - axn + ayn * esine * temp6);
          sinu = invr * (sinepw - ayn - axn * esine * temp6);
          u = atan2 sinu cosu;
          sin2u = 2.0 * sinu * cosu;
          cos2u = 2.0 * cosu * cosu - 1.0;
          temp7 = 1.0 / pl;
          temp8 = CK2 * temp7;
          temp9 = temp8 * temp7;
          rk = r * (1.0 - 1.5 * temp9 * betal * x3thm1) + 0.5 * temp8 * x1mth2 * cos2u;
          uk = u - 0.25 * temp9 * x7thm1 * sin2u;
          xnodek = xn + 1.5 * temp9 * cosInc * sin2u;
          xinck = xinc + 1.5 * temp9 * cosInc * sinInc * cos2u;
          rdotk = rdot - xnn * temp8 * x1mth2 * sin2u;
          rfdotk = rfdot + xnn * temp8 * (x1mth2 * cos2u + 1.5 * x3thm1);
          sinuk = sin uk;
          cosuk = cos uk;
          sinik = sin xinck;
          cosik = cos xinck;
          sinnok = sin xnodek;
          cosnok = cos xnodek;
          xmx = - sinnok * cosik;
          xmy = cosnok * cosik;
          ux = xmx * sinuk + cosnok * cosuk;
          uy = xmy * sinuk + sinnok * cosuk;
          uz = sinik * sinuk;
          vx = xmx * cosuk - cosnok * sinuk;
          vy = xmy * cosuk - sinnok * sinuk;
          vz = sinik * cosuk;
          x = rk * ux * XKMPER;
          y = rk * uy * XKMPER;
          z = rk * uz * XKMPER;
          xdot = (rdotk * ux + rfdotk * vx) * XKMPER / 60.0;
          ydot = (rdotk * uy + rfdotk * vy) * XKMPER / 60.0;
          zdot = (rdotk * uz + rfdotk * vz) * XKMPER / 60.0
      in \<lparr>sv_x = x, sv_y = y, sv_z = z, sv_xdot = xdot, sv_ydot = ydot, sv_zdot = zdot\<rparr>)"

definition sdp8 :: "OrbitalElements \<Rightarrow> real \<Rightarrow> Sdp8InitState option \<Rightarrow> PropagationResult" where
  "sdp8 elements tsince initState =
     (let state = (case initState of Some st \<Rightarrow> st | None \<Rightarrow> sdp8init elements);
          periodic = sdp8_secular state elements tsince;
          em = per_em periodic
      in if em \<ge> 1.0 \<or> em < - 0.001 then
           \<lparr>r_state = Some \<lparr>sv_x = 0, sv_y = 0, sv_z = 0, sv_xdot = 0, sv_ydot = 0, sv_zdot = 0\<rparr>,
            r_tsince = tsince,
            r_algorithm = SDP8,
            r_error = True,
            r_errorMessage = Some ''Satellite has decayed''\<rparr>
         else
           (let lp = sdp8_long_period state periodic;
                epw = kepler exact (lpd_capu lp) (lpd_axn lp) (lpd_ayn lp);
                pl = sdp8_pl lp
            in if pl < 0.0 then
                 \<lparr>r_state = Some \<lparr>sv_x = 0, sv_y = 0, sv_z = 0, sv_xdot = 0, sv_ydot = 0, sv_zdot = 0\<rparr>,
                  r_tsince = tsince,
                  r_algorithm = SDP8,
                  r_error = True,
                  r_errorMessage = Some ''Semi-latus rectum is negative''\<rparr>
               else
                 \<lparr>r_state = (case epw of None \<Rightarrow> None
                             | Some epw \<Rightarrow> Some (sdp8_short_period state periodic lp epw)),
                  r_tsince = tsince,
                  r_algorithm = SDP8,
                  r_error = False,
                  r_errorMessage = None\<rparr>))"

section \<open>The dispatcher (index.ts)\<close>

definition getSatelliteType :: "real \<Rightarrow> SatelliteType" where
  "getSatelliteType no =
     (let period = TWOPI / no
      in if period < DEEP_SPACE_THRESHOLD then near_earth else deep_space)"

definition propagate :: "OrbitalElements \<Rightarrow> real \<Rightarrow> PropagationResult" where
  "propagate elements tsince =
     (let satType = getSatelliteType (el_no elements)
      in if satType = near_earth then sgp4 elements tsince None
         else sdp4 elements tsince None)"

section \<open>Auxiliary definitions\<close>

text \<open>
  \<open>trace_ok rd capu axn ayn n eo1 epw new\<close> says that \<open>new\<close> is a run of the loop body
  from \<open>eo1\<close> with at most \<open>n\<close> passes left that ends in \<open>epw\<close>: every entry is the
  step computed at the iterate that the entries before it lead to, the run ends in the
  iterate that all its entries lead to, only the last entry can pass the tolerance test,
  and the run is shorter than \<open>n\<close> only if its last entry does.
\<close>

definition trace_ok ::
  "(real \<Rightarrow> real) \<Rightarrow> real \<Rightarrow> real \<Rightarrow> real \<Rightarrow> nat \<Rightarrow> real option \<Rightarrow> real option \<Rightarrow> real option list \<Rightarrow> bool" where
  "trace_ok rd capu axn ayn n eo1 epw new \<longleftrightarrow>
     length new \<le> n \<and>
     (\<forall>k<length new. new ! k = newton_step rd capu axn ayn (foldl (nan_add rd) eo1 (take k new))) \<and>
     epw = foldl (nan_add rd) eo1 new \<and>
     (\<forall>k<length new. converged rd (new ! k) \<longrightarrow> Suc k = length new) \<and>
     (length new < n \<longrightarrow> converged rd (last new)) \<and>
     (0 < n \<longrightarrow> new \<noteq> [])"


definition elements_of :: "real \<Rightarrow> real \<Rightarrow> real \<Rightarrow> OrbitalElements" where
  "elements_of no ecco inclo =
     \<lparr>el_satnum = 0, el_epochYear = 2000, el_epochDay = 1.5, el_jdsatepoch = 2451545,
      el_ndot = 0, el_nddot = 0, el_bstar = 0, el_inclo = inclo, el_nodeo = 0,
      el_ecco = ecco, el_argpo = 0, el_mo = 0, el_no = no, el_revnum = 0\<rparr>"

text \<open>
  A deep-space common block whose solar and lunar phases at epoch are 0.
\<close>

definition still_ds :: DeepSpaceCommon where
  "still_ds = (dsinit 2451545 1 0 0 0 0 0)\<lparr>ds_zmos := 0, ds_zmol := 0\<rparr>"

text \<open>
  The base recovery of \<open>sgp4init\<close> (lines 22-34, repeated in \<open>sdp4init\<close> and
  \<open>sdp8init\<close>) on its own: the recovered mean motion \<open>xnodp\<close> and semi-major axis
  \<open>aodp\<close>.
\<close>

definition recovered :: "OrbitalElements \<Rightarrow> real \<times> real" where
  "recovered elements =
     (let inclo = el_inclo elements; ecco = el_ecco elements; no = el_no elements;
          a1 = (XKE / no) powr TOTHRD;
          cosio = cos inclo;
          theta2 = cosio * cosio;
          x3thm1 = 3.0 * theta2 - 1.0;
          eosq = ecco * ecco;
          betao2 = 1.0 - eosq;
          betao = sqrt betao2;
          del1 = (1.5 * CK2 * x3thm1) / (a1 * a1 * betao * betao2);
          ao = a1 * (1.0 - del1 * (0.5 * TOTHRD + del1 * (1.0 + (134.0 / 81.0) * del1)));
          delo = (1.5 * CK2 * x3thm1) / (ao * ao * betao * betao2);
          xnodp = no / (1.0 + delo);
          aodp = ao / (1.0 - delo)
      in (xnodp, aodp))"

text \<open>
  The higher-order drag coefficients of a state are 0 when its simplified flag is set.
\<close>

definition simp_coeffs_zero :: "Sgp4InitState \<Rightarrow> bool" where
  "simp_coeffs_zero st \<longleftrightarrow>
     (s4_isimp st \<noteq> 0 \<longrightarrow>
        s4_d2 st = 0 \<and> s4_d3 st = 0 \<and> s4_d4 st = 0 \<and>
        s4_t3cof st = 0 \<and> s4_t4cof st = 0 \<and> s4_t5cof st = 0)"

text \<open>
  The density parameter \<open>s\<close> that \<open>sgp4init\<close> chooses from the perigee altitude in km
  (lines 44-53), and the statement that \<open>eta\<close> of a state is computed with it.
\<close>

definition density_s :: "real \<Rightarrow> real" where
  "density_s perige =
     (if perige < 156 then (if perige \<le> 98 then 20 else perige - 78) / XKMPER + AE
      else 78 / XKMPER + AE)"

definition eta_ok :: "OrbitalElements \<Rightarrow> Sgp4InitState \<Rightarrow> bool" where
  "eta_ok el st \<longleftrightarrow>
     s4_eta st = s4_a st * el_ecco el * (1 / (s4_a st - density_s (s4_altp st)))"

text \<open>
  Two element sets: one with its perigee about 195 km above the reference radius
  (the mean motion is chosen so that \<open>a1\<close> is \<open>1.196\<^sup>2\<close>), and one whose period
  \<open>2\<pi> / no\<close> is 224.99 minutes.
\<close>

definition low_perigee :: OrbitalElements where
  "low_perigee = elements_of (XKE / 1.196 ^ 3) 0.28 0"

definition near_boundary :: OrbitalElements where
  "near_boundary = elements_of (TWOPI / 224.99) 0.28 0"

section \<open>The Kepler solver: the run of the loop\<close>

lemma newton_step_le: "newton_step rd capu axn ayn eo1 = Some t \<Longrightarrow> \<bar>t\<bar> \<le> \<bar>rd 0.95\<bar>"
  by (auto simp: newton_step_def Let_def split: option.splits if_splits)

lemma kepler_loop_stop: "\<not> i < 10 \<Longrightarrow> kepler_loop rd capu axn ayn i eo1 steps = (eo1, steps)"
  by (subst kepler_loop.simps) simp

lemma kepler_loop_exit:
  "i < 10 \<Longrightarrow> converged rd (newton_step rd capu axn ayn eo1) \<Longrightarrow>
   kepler_loop rd capu axn ayn i eo1 steps =
     (nan_add rd eo1 (newton_step rd capu axn ayn eo1), steps @ [newton_step rd capu axn ayn eo1])"
  by (subst kepler_loop.simps) (simp add: Let_def)

lemma kepler_loop_next:
  "i < 10 \<Longrightarrow> \<not> converged rd (newton_step rd capu axn ayn eo1) \<Longrightarrow>
   kepler_loop rd capu axn ayn i eo1 steps =
     kepler_loop rd capu axn ayn (i + 1) (nan_add rd eo1 (newton_step rd capu axn ayn eo1))
       (steps @ [newton_step rd capu axn ayn eo1])"
  by (subst kepler_loop.simps) (simp add: Let_def)

lemma trace_ok_Cons:
  assumes "trace_ok rd capu axn ayn n (nan_add rd eo1 s) epw new"
    "s = newton_step rd capu axn ayn eo1" "\<not> converged rd s" "0 < n"
  shows "trace_ok rd capu axn ayn (Suc n) eo1 epw (s # new)"
proof -
  have n: "new \<noteq> []" using assms(1,4) by (simp add: trace_ok_def)
  have a: "\<forall>k<length (s # new). (s # new) ! k =
      newton_step rd capu axn ayn (foldl (nan_add rd) eo1 (take k (s # new)))"
  proof (intro allI impI)
    fix k assume "k < length (s # new)"
    then show "(s # new) ! k = newton_step rd capu axn ayn (foldl (nan_add rd) eo1 (take k (s # new)))"
      using assms(1,2) by (cases k) (simp_all add: trace_ok_def)
  qed
  have b: "\<forall>k<length (s # new). converged rd ((s # new) ! k) \<longrightarrow> Suc k = length (s # new)"
  proof (intro allI impI)
    fix k assume "k < length (s # new)" "converged rd ((s # new) ! k)"
    then show "Suc k = length (s # new)"
      using assms(1,3) by (cases k) (simp_all add: trace_ok_def)
  qed
  have c: "length (s # new) \<le> Suc n" "epw = foldl (nan_add rd) eo1 (s # new)"
    "length (s # new) < Suc n \<longrightarrow> converged rd (last (s # new))"
    using assms(1) n by (simp_all add: trace_ok_def)
  show ?thesis unfolding trace_ok_def using a b c by blast
qed

lemma trace_ok_single:
  assumes "s = newton_step rd capu axn ayn eo1" "n = 1 \<or> converged rd s" "0 < n"
  shows "trace_ok rd capu axn ayn n eo1 (nan_add rd eo1 s) [s]"
  using assms unfolding trace_ok_def by auto

lemma kepler_loop_trace:
  "n = 10 - i \<Longrightarrow>
   \<exists>new. kepler_loop rd capu axn ayn i eo1 steps =
           (fst (kepler_loop rd capu axn ayn i eo1 steps), steps @ new) \<and>
     (i < 10 \<longrightarrow> trace_ok rd capu axn ayn n eo1 (fst (kepler_loop rd capu axn ayn i eo1 steps)) new)"
proof (induction n arbitrary: i eo1 steps)
  case 0
  then have "\<not> i < 10" by simp
  then show ?case by (simp add: kepler_loop_stop)
next
  case (Suc n)
  then have i: "i < 10" and n: "n = 10 - (i + 1)" by simp_all
  define s where "s = newton_step rd capu axn ayn eo1"
  define e' where "e' = nan_add rd eo1 s"
  show ?case
  proof (cases "converged rd s")
    case True
    then have "kepler_loop rd capu axn ayn i eo1 steps = (e', steps @ [s])"
      using i unfolding s_def e'_def by (rule_tac kepler_loop_exit)
    moreover have "trace_ok rd capu axn ayn (Suc n) eo1 e' [s]"
      unfolding e'_def using True s_def by (intro trace_ok_single) simp_all
    ultimately show ?thesis by simp
  next
    case False
    then have step: "kepler_loop rd capu axn ayn i eo1 steps =
        kepler_loop rd capu axn ayn (i + 1) e' (steps @ [s])"
      using i unfolding s_def e'_def by (rule_tac kepler_loop_next)
    show ?thesis
    proof (cases "i + 1 < 10")
      case last: False
      then have "kepler_loop rd capu axn ayn (i + 1) e' (steps @ [s]) = (e', steps @ [s])"
        by (rule kepler_loop_stop)
      moreover have "n = 0" using last n by simp
      then have "trace_ok rd capu axn ayn (Suc n) eo1 e' [s]"
        unfolding e'_def using s_def by (intro trace_ok_single) simp_all
      ultimately show ?thesis using step by simp
    next
      case more: True
      from Suc.IH[OF n, of e' "steps @ [s]"] more
      obtain new where new:
        "kepler_loop rd capu axn ayn (i + 1) e' (steps @ [s]) =
           (fst (kepler_loop rd capu axn ayn (i + 1) e' (steps @ [s])), (steps @ [s]) @ new)"
        "trace_ok rd capu axn ayn n e' (fst (kepler_loop rd capu axn ayn (i + 1) e' (steps @ [s]))) new"
        by blast
      have "0 < n" using more n by simp
      from trace_ok_Cons[OF new(2)[unfolded e'_def] s_def False this] new(1) step
      show ?thesis by (intro exI[of _ "s # new"]) (simp add: e'_def)
    qed
  qed
qed

lemma nan_add_simps:
  "nan_add rd None b = None" "nan_add rd a None = None"
  "nan_add rd (Some x) (Some y) = Some (rd (x + y))"
  by (simp_all add: nan_add_def split: option.splits)

lemma foldl_nan_add_None: "foldl (nan_add rd) None xs = None"
  by (induction xs) (simp_all add: nan_add_simps)

lemma foldl_nan_add_eq_None:
  "foldl (nan_add rd) (Some e) xs = None \<longleftrightarrow> None \<in> set xs"
proof (induction xs arbitrary: e)
  case Nil
  then show ?case by simp
next
  case (Cons x xs)
  then show ?case by (cases x) (simp_all add: nan_add_simps foldl_nan_add_None)
qed

lemma foldl_exact_sum:
  "foldl (nan_add exact) (Some e) (map Some xs) = Some (e + sum_list xs)"
  by (induction xs arbitrary: e) (simp_all add: nan_add_simps exact_def add.assoc)

lemma first_nan:
  "None \<in> set xs \<Longrightarrow> \<exists>k<length xs. xs ! k = None \<and> None \<notin> set (take k xs)"
proof (induction xs)
  case Nil
  then show ?case by simp
next
  case (Cons x xs)
  show ?case
  proof (cases x)
    case None
    then show ?thesis by (intro exI[of _ 0]) simp
  next
    case (Some v)
    then have "None \<in> set xs" using Cons.prems by simp
    from Cons.IH[OF this] obtain k where "k < length xs" "xs ! k = None" "None \<notin> set (take k xs)"
      by blast
    then show ?thesis using Some by (intro exI[of _ "Suc k"]) simp
  qed
qed

lemma newton_step_nan_iff:
  "newton_step rd capu axn ayn (Some e) = None \<longleftrightarrow>
     rd (rd (rd 1.0 - rd (rd (cos e) * axn)) - rd (rd (sin e) * ayn)) = 0 \<and>
     rd (rd (rd (capu - rd (ayn * rd (cos e))) + rd (axn * rd (sin e))) - e) = 0"
  by (simp add: newton_step_def Let_def)

lemma nan_step_iff:
  assumes all: "\<forall>k<length steps. steps ! k =
      newton_step rd capu axn ayn (foldl (nan_add rd) (Some e0) (take k steps))"
  shows "None \<in> set steps \<longleftrightarrow>
     (\<exists>k<length steps. \<exists>e. foldl (nan_add rd) (Some e0) (take k steps) = Some e \<and>
        newton_step rd capu axn ayn (Some e) = None)"
proof
  assume "None \<in> set steps"
  from first_nan[OF this] obtain k where
    k: "k < length steps" "steps ! k = None" "None \<notin> set (take k steps)" by blast
  obtain e where e: "foldl (nan_add rd) (Some e0) (take k steps) = Some e"
    using k(3) foldl_nan_add_eq_None[of rd e0 "take k steps"]
    by (cases "foldl (nan_add rd) (Some e0) (take k steps)") auto
  have "newton_step rd capu axn ayn (Some e) = None" using all k(1,2) e by simp
  with k(1) e show "\<exists>k<length steps. \<exists>e. foldl (nan_add rd) (Some e0) (take k steps) = Some e \<and>
        newton_step rd capu axn ayn (Some e) = None" by blast
next
  assume "\<exists>k<length steps. \<exists>e. foldl (nan_add rd) (Some e0) (take k steps) = Some e \<and>
        newton_step rd capu axn ayn (Some e) = None"
  then obtain k e where k: "k < length steps"
    "foldl (nan_add rd) (Some e0) (take k steps) = Some e" "newton_step rd capu axn ayn (Some e) = None"
    by blast
  then have "steps ! k = None" using all by simp
  then show "None \<in> set steps" using k(1) by (metis nth_mem)
qed

section \<open>The Kepler solver in exact arithmetic\<close>

lemma newton_step_exact:
  "newton_step exact capu axn ayn (Some E) =
     (if 1 - cos E * axn - sin E * ayn = 0 then
        (if capu - ayn * cos E + axn * sin E - E = 0 then None
         else Some (if capu - ayn * cos E + axn * sin E - E > 0 then 0.95 else - 0.95))
      else Some (let q = (capu - ayn * cos E + axn * sin E - E) / (1 - cos E * axn - sin E * ayn)
                 in if \<bar>q\<bar> \<ge> 0.95 then (if q > 0 then 0.95 else - 0.95) else q))"
  by (simp add: newton_step_def exact_def Let_def)

lemma ecc_proj_less_1:
  fixes axn ayn c s :: real
  assumes "axn * axn + ayn * ayn < 1" "s * s + c * c = 1"
  shows "\<bar>c * axn + s * ayn\<bar> < 1"
proof -
  have "(c * axn + s * ayn)\<^sup>2 + (s * axn - c * ayn)\<^sup>2 = (axn * axn + ayn * ayn) * (s * s + c * c)"
    by (simp add: power2_eq_square algebra_simps)
  then have "(c * axn + s * ayn)\<^sup>2 + (s * axn - c * ayn)\<^sup>2 = axn * axn + ayn * ayn"
    using assms(2) by simp
  moreover have "0 \<le> (s * axn - c * ayn)\<^sup>2" by simp
  ultimately have "(c * axn + s * ayn)\<^sup>2 \<le> axn * axn + ayn * ayn" by linarith
  then have "(c * axn + s * ayn)\<^sup>2 < 1" using assms(1) by linarith
  then show ?thesis by (simp add: abs_square_less_1)
qed

lemma divisor_nonzero:
  fixes axn ayn E :: real
  assumes "axn * axn + ayn * ayn < 1"
  shows "1 - cos E * axn - sin E * ayn \<noteq> 0"
proof -
  have "\<bar>cos E * axn + sin E * ayn\<bar> < 1"
    using assms by (rule ecc_proj_less_1) (simp add: power2_eq_square[symmetric])
  then show ?thesis by linarith
qed

lemma newton_step_finite:
  assumes "axn * axn + ayn * ayn < 1"
  shows "newton_step exact capu axn ayn (Some E) \<noteq> None"
  using divisor_nonzero[OF assms, of E] by (simp add: newton_step_exact)

lemma newton_step_unclamped:
  assumes "axn * axn + ayn * ayn < 1" "newton_step exact capu axn ayn (Some E) = Some h"
    "\<bar>h\<bar> < 0.95"
  shows "capu - ayn * cos E + axn * sin E - E = h * (1 - cos E * axn - sin E * ayn)"
proof -
  have D: "1 - cos E * axn - sin E * ayn \<noteq> 0" using assms(1) by (rule divisor_nonzero)
  let ?q = "(capu - ayn * cos E + axn * sin E - E) / (1 - cos E * axn - sin E * ayn)"
  have h: "h = (if \<bar>?q\<bar> \<ge> 0.95 then (if ?q > 0 then 0.95 else - 0.95) else ?q)"
    using assms(2) D by (simp add: newton_step_exact Let_def)
  have "h = ?q"
  proof (cases "\<bar>?q\<bar> \<ge> 0.95")
    case True
    then have "\<bar>h\<bar> = 0.95" using h by simp
    with assms(3) show ?thesis by simp
  next
    case False
    then show ?thesis using h by simp
  qed
  then show ?thesis using D by simp
qed

lemma cos_second_order: "\<bar>cos h - 1\<bar> \<le> h\<^sup>2 / 2" for h :: real
proof -
  have "\<bar>sin (h / 2)\<bar> \<le> \<bar>h / 2\<bar>" by (rule abs_sin_x_le_abs_x)
  then have "\<bar>sin (h / 2)\<bar> * \<bar>sin (h / 2)\<bar> \<le> \<bar>h / 2\<bar> * \<bar>h / 2\<bar>"
    by (intro mult_mono) simp_all
  then have "(sin (h / 2))\<^sup>2 \<le> h\<^sup>2 / 4"
    by (simp add: power2_eq_square abs_mult[symmetric])
  moreover have "cos h = 1 - 2 * (sin (h / 2))\<^sup>2"
    using cos_double_sin[of "h / 2"] by simp
  moreover have "0 \<le> (sin (h / 2))\<^sup>2" by simp
  ultimately show ?thesis by linarith
qed

lemma sin_second_order: "\<bar>sin h - h\<bar> \<le> h\<^sup>2 / 2" for h :: real
  using Maclaurin_sin_bound[of h 2]
  by (simp add: lessThan_nat_numeral sin_coeff_def inverse_eq_divide)

lemma residual_after_step:
  assumes e: "axn * axn + ayn * ayn < 1"
    and st: "newton_step exact capu axn ayn (Some E) = Some h" and s: "\<bar>h\<bar> < 0.95"
  shows "\<bar>capu - ayn * cos (E + h) + axn * sin (E + h) - (E + h)\<bar> \<le> h\<^sup>2"
proof -
  have g: "capu - ayn * cos E + axn * sin E - E = h * (1 - cos E * axn - sin E * ayn)"
    using e st s by (rule newton_step_unclamped)
  define A where "A = sin E * axn + (- cos E) * ayn"
  define B where "B = cos E * axn + sin E * ayn"
  have A: "\<bar>A\<bar> < 1"
    unfolding A_def using e by (rule ecc_proj_less_1) (simp add: power2_eq_square[symmetric])
  have B: "\<bar>B\<bar> < 1"
    unfolding B_def using e by (rule ecc_proj_less_1) (simp add: power2_eq_square[symmetric])
  have "capu - ayn * cos (E + h) + axn * sin (E + h) - (E + h) =
        (cos h - 1) * A + (sin h - h) * B"
    using g unfolding A_def B_def by (simp add: cos_add sin_add algebra_simps)
  also have "\<bar>\<dots>\<bar> \<le> \<bar>(cos h - 1) * A\<bar> + \<bar>(sin h - h) * B\<bar>" by (rule abs_triangle_ineq)
  also have "\<dots> \<le> (h\<^sup>2 / 2) * 1 + (h\<^sup>2 / 2) * 1"
    unfolding abs_mult
    by (intro add_mono mult_mono cos_second_order sin_second_order less_imp_le[OF A] less_imp_le[OF B])
      simp_all
  finally show ?thesis by simp
qed

lemma exact_run_finite:
  assumes "axn * axn + ayn * ayn < 1"
  shows "(\<forall>k<length new. new ! k =
            newton_step exact capu axn ayn (foldl (nan_add exact) (Some e0) (take k new))) \<Longrightarrow>
         None \<notin> set new"
proof (induction new rule: rev_induct)
  case Nil
  then show ?case by simp
next
  case (snoc x xs)
  have "\<forall>k<length xs. xs ! k =
      newton_step exact capu axn ayn (foldl (nan_add exact) (Some e0) (take k xs))"
  proof (intro allI impI)
    fix k assume k: "k < length xs"
    then have "(xs @ [x]) ! k =
        newton_step exact capu axn ayn (foldl (nan_add exact) (Some e0) (take k (xs @ [x])))"
      using snoc.prems by simp
    then show "xs ! k = newton_step exact capu axn ayn (foldl (nan_add exact) (Some e0) (take k xs))"
      using k by (simp add: nth_append)
  qed
  then have xs: "None \<notin> set xs" by (rule snoc.IH)
  then obtain E where E: "foldl (nan_add exact) (Some e0) xs = Some E"
    using foldl_nan_add_eq_None[of exact e0 xs] by (cases "foldl (nan_add exact) (Some e0) xs") auto
  have "(xs @ [x]) ! length xs =
      newton_step exact capu axn ayn (foldl (nan_add exact) (Some e0) (take (length xs) (xs @ [x])))"
    using snoc.prems[rule_format, of "length xs"] by simp
  then have "x = newton_step exact capu axn ayn (Some E)" using E by simp
  then have "x \<noteq> None" using newton_step_finite[OF assms] by simp
  then show ?case using xs by auto
qed

lemma trace_at:
  assumes e: "axn * axn + ayn * ayn < 1"
    and ok: "trace_ok exact capu axn ayn n (Some e0) r steps"
    and k: "k < length steps"
  shows "\<exists>E h. foldl (nan_add exact) (Some e0) (take k steps) = Some E \<and>
           steps ! k = Some h \<and> newton_step exact capu axn ayn (Some E) = Some h \<and>
           foldl (nan_add exact) (Some e0) (take (Suc k) steps) = Some (E + h)"
proof -
  have all: "\<forall>k<length steps. steps ! k =
      newton_step exact capu axn ayn (foldl (nan_add exact) (Some e0) (take k steps))"
    using ok by (simp add: trace_ok_def)
  have fin: "None \<notin> set steps" using e all by (rule exact_run_finite)
  have "None \<notin> set (take k steps)" using fin by (auto dest: in_set_takeD)
  then obtain E where E: "foldl (nan_add exact) (Some e0) (take k steps) = Some E"
    using foldl_nan_add_eq_None[of exact e0 "take k steps"]
    by (cases "foldl (nan_add exact) (Some e0) (take k steps)") auto
  have "steps ! k \<noteq> None" using fin k by (metis nth_mem)
  then obtain h where h: "steps ! k = Some h" by auto
  have st: "newton_step exact capu axn ayn (Some E) = Some h" using all k E h by simp
  have "foldl (nan_add exact) (Some e0) (take (Suc k) steps) = Some (E + h)"
    using k E h by (simp add: take_Suc_conv_app_nth nan_add_simps exact_def)
  with E h st show ?thesis by blast
qed

lemma trace_end:
  assumes e: "axn * axn + ayn * ayn < 1"
    and ok: "trace_ok exact capu axn ayn n (Some e0) r steps"
    and ne: "steps \<noteq> []"
  shows "\<exists>E h. last steps = Some h \<and> newton_step exact capu axn ayn (Some E) = Some h \<and>
           r = Some (E + h)"
proof -
  have k: "length steps - 1 < length steps" using ne by simp
  from trace_at[OF e ok k] obtain E h where
    "steps ! (length steps - 1) = Some h" "newton_step exact capu axn ayn (Some E) = Some h"
    "foldl (nan_add exact) (Some e0) (take (Suc (length steps - 1)) steps) = Some (E + h)"
    by blast
  moreover have "Suc (length steps - 1) = length steps" using ne by simp
  moreover have "r = foldl (nan_add exact) (Some e0) steps" using ok by (simp add: trace_ok_def)
  ultimately show ?thesis using ne by (auto simp: last_conv_nth)
qed

lemma sum_list_abs_le:
  fixes xs :: "real list"
  shows "(\<forall>k<length xs. \<bar>xs ! k\<bar> \<le> c) \<Longrightarrow> \<bar>sum_list xs\<bar> \<le> c * real (length xs)"
proof (induction xs)
  case Nil
  then show ?case by simp
next
  case (Cons x xs)
  have "\<bar>x\<bar> \<le> c" using Cons.prems by (auto dest: spec[of _ 0])
  moreover have "\<forall>k<length xs. \<bar>xs ! k\<bar> \<le> c" using Cons.prems by (auto dest: spec[of _ "Suc k" for k])
  then have "\<bar>sum_list xs\<bar> \<le> c * real (length xs)" by (rule Cons.IH)
  ultimately show ?case by (simp add: algebra_simps)
qed

lemma exact_run_sum:
  assumes e: "axn * axn + ayn * ayn < 1"
    and ok: "trace_ok exact capu axn ayn n (Some e0) r steps"
  shows "\<exists>epw. r = Some epw \<and> \<bar>epw - e0\<bar> \<le> 0.95 * real (length steps)"
proof -
  have all: "\<forall>k<length steps. steps ! k =
      newton_step exact capu axn ayn (foldl (nan_add exact) (Some e0) (take k steps))"
    using ok by (simp add: trace_ok_def)
  have fin: "None \<notin> set steps" using e all by (rule exact_run_finite)
  define rs where "rs = map the steps"
  have st: "steps = map Some rs"
    unfolding rs_def using fin by (induction steps) auto
  have r: "r = Some (e0 + sum_list rs)"
    using ok unfolding trace_ok_def st by (simp add: foldl_exact_sum)
  have "\<forall>k<length rs. \<bar>rs ! k\<bar> \<le> 0.95"
  proof (intro allI impI)
    fix k assume k: "k < length rs"
    then have "steps ! k = Some (rs ! k)" by (simp add: st)
    moreover have "steps ! k = newton_step exact capu axn ayn (foldl (nan_add exact) (Some e0) (take k steps))"
      using all k by (simp add: st)
    ultimately have "\<bar>rs ! k\<bar> \<le> \<bar>exact 0.95\<bar>" by (metis newton_step_le)
    then show "\<bar>rs ! k\<bar> \<le> 0.95" by (simp add: exact_def)
  qed
  then have "\<bar>sum_list rs\<bar> \<le> 0.95 * real (length rs)" by (rule sum_list_abs_le)
  then show ?thesis using r by (simp add: st)
qed

section \<open>The Kepler solver: passes, clamp and result\<close>

text \<open>
  Claim C3, as amended. For every input of the Kepler loop and in either arithmetic:
  the loop starts from \<open>eo1 = capu\<close>; it runs between one and ten passes; every step it
  adds is the Newton step at the current iterate, and a step that is a number has
  magnitude at most 0.95; it stops at the first step whose magnitude is below \<open>1e-12\<close>,
  and stops before the tenth pass only for that reason; it always returns, and what it
  returns is NaN exactly when a step is NaN, that is when a pass has computed 0/0.
  In exact arithmetic with \<open>axn\<^sup>2 + ayn\<^sup>2 < 1\<close> no pass does, and the loop returns a number
  at most 9.5 from \<open>capu\<close>.
\<close>

theorem kepler_loop_bounded:
  "\<exists>steps. kepler_loop rd capu axn ayn 0 (Some capu) [] = (kepler rd capu axn ayn, steps) \<and>
     1 \<le> length steps \<and> length steps \<le> 10 \<and>
     (\<forall>k<length steps.
        steps ! k = newton_step rd capu axn ayn (foldl (nan_add rd) (Some capu) (take k steps)) \<and>
        (\<forall>t. steps ! k = Some t \<longrightarrow> \<bar>t\<bar> \<le> \<bar>rd 0.95\<bar>)) \<and>
     kepler rd capu axn ayn = foldl (nan_add rd) (Some capu) steps \<and>
     (\<forall>k<length steps. converged rd (steps ! k) \<longrightarrow> Suc k = length steps) \<and>
     (length steps < 10 \<longrightarrow> converged rd (last steps)) \<and>
     (kepler rd capu axn ayn = None \<longleftrightarrow> None \<in> set steps) \<and>
     (None \<in> set steps \<longleftrightarrow>
        (\<exists>k<length steps. \<exists>e. foldl (nan_add rd) (Some capu) (take k steps) = Some e \<and>
           rd (rd (rd 1.0 - rd (rd (cos e) * axn)) - rd (rd (sin e) * ayn)) = 0 \<and>
           rd (rd (rd (capu - rd (ayn * rd (cos e))) + rd (axn * rd (sin e))) - e) = 0)) \<and>
     (rd = exact \<and> axn * axn + ayn * ayn < 1 \<longrightarrow>
        (\<exists>epw. kepler rd capu axn ayn = Some epw \<and> \<bar>epw - capu\<bar> \<le> 9.5))"
proof -
  from kepler_loop_trace[of 10 0 rd capu axn ayn "Some capu" "[]"]
  obtain steps where st: "kepler_loop rd capu axn ayn 0 (Some capu) [] = (kepler rd capu axn ayn, steps)"
    and ok: "trace_ok rd capu axn ayn 10 (Some capu) (kepler rd capu axn ayn) steps"
    by (auto simp: kepler_def)
  have le: "\<forall>k<length steps.
        steps ! k = newton_step rd capu axn ayn (foldl (nan_add rd) (Some capu) (take k steps)) \<and>
        (\<forall>t. steps ! k = Some t \<longrightarrow> \<bar>t\<bar> \<le> \<bar>rd 0.95\<bar>)"
    using ok newton_step_le unfolding trace_ok_def by metis
  have len: "length steps \<le> 10" "steps \<noteq> []" using ok by (simp_all add: trace_ok_def)
  have one: "1 \<le> length steps" using len(2) by (cases steps) simp_all
  have k: "kepler rd capu axn ayn = foldl (nan_add rd) (Some capu) steps"
    using ok by (simp add: trace_ok_def)
  have nan: "kepler rd capu axn ayn = None \<longleftrightarrow> None \<in> set steps"
    unfolding k by (rule foldl_nan_add_eq_None)
  have fin: "rd = exact \<and> axn * axn + ayn * ayn < 1 \<longrightarrow>
        (\<exists>epw. kepler rd capu axn ayn = Some epw \<and> \<bar>epw - capu\<bar> \<le> 9.5)"
  proof
    assume a: "rd = exact \<and> axn * axn + ayn * ayn < 1"
    then have "trace_ok exact capu axn ayn 10 (Some capu) (kepler rd capu axn ayn) steps"
      using ok by simp
    from exact_run_sum[OF conjunct2[OF a] this] obtain epw where
      epw: "kepler rd capu axn ayn = Some epw" "\<bar>epw - capu\<bar> \<le> 0.95 * real (length steps)"
      by blast
    have "0.95 * real (length steps) \<le> 0.95 * 10" using len(1) by simp
    then have "\<bar>epw - capu\<bar> \<le> 9.5" using epw(2) by simp
    with epw(1) show "\<exists>epw. kepler rd capu axn ayn = Some epw \<and> \<bar>epw - capu\<bar> \<le> 9.5" by blast
  qed
  have zz: "None \<in> set steps \<longleftrightarrow>
        (\<exists>k<length steps. \<exists>e. foldl (nan_add rd) (Some capu) (take k steps) = Some e \<and>
           rd (rd (rd 1.0 - rd (rd (cos e) * axn)) - rd (rd (sin e) * ayn)) = 0 \<and>
           rd (rd (rd (capu - rd (ayn * rd (cos e))) + rd (axn * rd (sin e))) - e) = 0)"
    using nan_step_iff[of steps rd capu axn ayn capu] le
    unfolding newton_step_nan_iff by blast
  have stop: "(\<forall>k<length steps. converged rd (steps ! k) \<longrightarrow> Suc k = length steps) \<and>
     (length steps < 10 \<longrightarrow> converged rd (last steps))"
    using ok unfolding trace_ok_def by blast
  show ?thesis
    using st one len(1) le k stop nan zz fin by (intro exI[of _ steps]) blast
qed

lemma clamped_first_step: "newton_step exact 0 (3 / 5) (- (3 / 5)) (Some 0) = Some 0.95"
  by (simp add: newton_step_exact Let_def)

theorem kepler_loop_bounded_witness:
  "(3 / 5) * (3 / 5) + (- (3 / 5)) * (- (3 / 5)) < (1::real) \<and>
   (\<exists>steps epw. kepler_loop exact 0 (3 / 5) (- (3 / 5)) 0 (Some 0) [] = (Some epw, steps) \<and>
      kepler exact 0 (3 / 5) (- (3 / 5)) = Some epw \<and>
      steps ! 0 = Some 0.95 \<and> 2 \<le> length steps \<and> length steps \<le> 10 \<and>
      \<bar>epw - 0\<bar> \<le> 9.5)"
proof -
  have h: "exact = exact \<and> (3 / 5) * (3 / 5) + (- (3 / 5)) * (- (3 / 5)) < (1::real)" by simp
  from kepler_loop_bounded[of exact 0 "3 / 5" "- (3 / 5)"] obtain steps where
    st: "kepler_loop exact 0 (3 / 5) (- (3 / 5)) 0 (Some 0) [] = (kepler exact 0 (3 / 5) (- (3 / 5)), steps)"
    and len: "1 \<le> length steps" "length steps \<le> 10"
    and all: "\<forall>k<length steps.
        steps ! k = newton_step exact 0 (3 / 5) (- (3 / 5)) (foldl (nan_add exact) (Some 0) (take k steps)) \<and>
        (\<forall>t. steps ! k = Some t \<longrightarrow> \<bar>t\<bar> \<le> \<bar>exact 0.95\<bar>)"
    and stop: "length steps < 10 \<longrightarrow> converged exact (last steps)"
    and fin: "exact = exact \<and> (3 / 5) * (3 / 5) + (- (3 / 5)) * (- (3 / 5)) < (1::real) \<longrightarrow>
        (\<exists>epw. kepler exact 0 (3 / 5) (- (3 / 5)) = Some epw \<and> \<bar>epw - 0\<bar> \<le> 9.5)"
    by blast
  from fin h obtain epw where epw: "kepler exact 0 (3 / 5) (- (3 / 5)) = Some epw" "\<bar>epw - 0\<bar> \<le> 9.5"
    by blast
  have "0 < length steps" using len(1) by linarith
  then have "steps ! 0 = newton_step exact 0 (3 / 5) (- (3 / 5)) (foldl (nan_add exact) (Some 0) (take 0 steps))"
    using all by blast
  then have s0: "steps ! 0 = Some 0.95" by (simp add: clamped_first_step)
  have "length steps \<noteq> 1"
  proof
    assume l: "length steps = 1"
    then obtain x where "steps = [x]" by (cases steps) auto
    then have "last steps = steps ! 0" by simp
    moreover have "converged exact (last steps)" using stop l by simp
    ultimately show False using s0 by (simp add: converged_def exact_def)
  qed
  then have "2 \<le> length steps" using len(1) by simp
  with h st epw s0 len(2) show ?thesis by auto
qed

text \<open>
  In exact arithmetic the hypothesis on the eccentricity vector is needed: at \<open>capu = 0\<close>,
  \<open>axn = 1\<close>, \<open>ayn = 0\<close> the first pass computes 0/0.
\<close>

lemma kepler_exact_unit_eccentricity: "kepler exact 0 1 0 = None"
proof -
  have s: "newton_step exact 0 1 0 (Some 0) = None" by (simp add: newton_step_exact)
  from kepler_loop_trace[of 10 0 exact 0 1 0 "Some 0" "[]"]
  obtain steps where ok: "trace_ok exact 0 1 0 10 (Some 0) (kepler exact 0 1 0) steps"
    by (auto simp: kepler_def)
  then have "steps \<noteq> []" "steps ! 0 = newton_step exact 0 1 0 (foldl (nan_add exact) (Some 0) (take 0 steps))"
    by (auto simp: trace_ok_def)
  then have "None \<in> set steps" using s by (cases steps) auto
  then show ?thesis using ok foldl_nan_add_eq_None[of exact 0 steps] by (simp add: trace_ok_def)
qed

section \<open>The Kepler solver in double arithmetic\<close>

text \<open>
  \<open>rd64\<close> is evaluated through \<open>rd64_scaled\<close>: a number whose magnitude times \<open>2 ^ n\<close>
  lies in \<open>[2 ^ 52, 2 ^ 53)\<close> rounds to a multiple of \<open>1 / 2 ^ n\<close>. The sine and the
  cosine of the input are enclosed by their Maclaurin polynomials of degree 19 and 18,
  whose remainder is below \<open>capu ^ 20 / 20!\<close>, closely enough to fix their nearest doubles.
  \<open>nan_step\<close> then follows the first pass of the loop operation by operation.
\<close>

lemma round_even_near:
  assumes "\<bar>y - of_int m\<bar> < 1 / 2"
  shows "round_even y = m"
proof (cases "of_int m \<le> y")
  case True
  then have "\<lfloor>y\<rfloor> = m" using assms by (intro floor_unique) linarith+
  then show ?thesis using assms True by (simp add: round_even_def Let_def)
next
  case False
  then have "\<lfloor>y\<rfloor> = m - 1" using assms by (intro floor_unique) (simp, linarith)+
  then show ?thesis using assms False by (simp add: round_even_def Let_def)
qed

lemma rd64_scaled:
  fixes n :: nat
  assumes "2 ^ 52 \<le> \<bar>x\<bar> * 2 ^ n" "\<bar>x\<bar> * 2 ^ n < 2 ^ 53" "n \<le> 1074"
  shows "rd64 x = of_int (round_even (x * 2 ^ n)) / 2 ^ n"
proof -
  have x: "x \<noteq> 0" using assms(1) by auto
  have p: "(2::real) powr (52 - real n) = 2 ^ 52 / 2 ^ n"
    by (simp add: powr_diff powr_realpow[symmetric])
  have p': "(2::real) powr (53 - real n) = 2 ^ 53 / 2 ^ n"
    by (simp add: powr_diff powr_realpow[symmetric])
  have "2 powr (52 - real n) \<le> \<bar>x\<bar> \<and> \<bar>x\<bar> < 2 powr (53 - real n)"
    unfolding p p' using assms(1,2) by (simp add: field_simps)
  then have "\<lfloor>log 2 \<bar>x\<bar>\<rfloor> = 52 - int n"
    using x by (subst floor_log_eq_powr_iff) simp_all
  moreover have "max (52 - int n) (- 1022) - 52 = - int n" using assms(3) by simp
  moreover have "(2::real) powr (of_int (- int n)) = 1 / 2 ^ n"
    by (simp add: powr_minus powr_realpow[symmetric] field_simps)
  ultimately show ?thesis using x by (simp add: rd64_def Let_def)
qed

lemma rd64_0: "rd64 0 = 0" by (simp add: rd64_def)

lemma sin_poly:
  "(\<Sum>m<20. sin_coeff m * x ^ m) =
     x - x ^ 3 / 6 + x ^ 5 / 120 - x ^ 7 / 5040 + x ^ 9 / 362880 - x ^ 11 / 39916800
     + x ^ 13 / 6227020800 - x ^ 15 / 1307674368000 + x ^ 17 / 355687428096000
     - x ^ 19 / 121645100408832000" for x :: real
  by (simp add: lessThan_nat_numeral sin_coeff_def fact_numeral)

lemma cos_poly:
  "(\<Sum>m<20. cos_coeff m * x ^ m) =
     1 - x ^ 2 / 2 + x ^ 4 / 24 - x ^ 6 / 720 + x ^ 8 / 40320 - x ^ 10 / 3628800
     + x ^ 12 / 479001600 - x ^ 14 / 87178291200 + x ^ 16 / 20922789888000
     - x ^ 18 / 6402373705728000" for x :: real
  by (simp add: lessThan_nat_numeral cos_coeff_def fact_numeral)

lemma Maclaurin_cos_bound: "\<bar>cos x - (\<Sum>m<n. cos_coeff m * x ^ m)\<bar> \<le> inverse (fact n) * \<bar>x\<bar> ^ n"
  for x :: real
proof -
  from Maclaurin_cos_expansion[of x n] obtain t where
    t: "cos x = (\<Sum>m<n. cos_coeff m * x ^ m) + (cos (t + 1 / 2 * real n * pi) / fact n) * x ^ n"
    by blast
  define r where "r = cos (t + 1 / 2 * real n * pi)"
  have "cos x - (\<Sum>m<n. cos_coeff m * x ^ m) = r * x ^ n / fact n"
    using t by (simp add: r_def)
  then have "\<bar>cos x - (\<Sum>m<n. cos_coeff m * x ^ m)\<bar> = \<bar>r\<bar> * \<bar>x\<bar> ^ n / fact n"
    by (simp add: abs_mult power_abs)
  also have "\<dots> \<le> 1 * \<bar>x\<bar> ^ n / fact n"
    unfolding r_def by (intro divide_right_mono mult_right_mono abs_cos_le_one) simp_all
  finally show ?thesis by (simp add: inverse_eq_divide)
qed

lemma enclosure:
  fixes v T eps c m :: real
  assumes "\<bar>v - T\<bar> \<le> eps" "\<bar>T * c - m\<bar> \<le> 1 / 5" "eps * c \<le> 1 / 10" "0 \<le> c"
  shows "\<bar>v * c - m\<bar> < 1 / 2"
proof -
  have "v * c - m = (v - T) * c + (T * c - m)" by (simp add: algebra_simps)
  moreover have "\<bar>(v - T) * c\<bar> \<le> eps * c"
    using assms(1,4) by (simp add: abs_mult mult_right_mono)
  ultimately show ?thesis using assms(2,3) by linarith
qed

lemma sin_nan_input: "\<bar>sin (2472315279948587 / 2 ^ 51) * 2 ^ 53 - 8018801829250312\<bar> < (1 / 2 :: real)"
proof -
  define x :: real where "x = 2472315279948587 / 2 ^ 51"
  define T where "T = (\<Sum>m<20. sin_coeff m * x ^ m)"
  define eps where "eps = inverse (fact 20) * \<bar>x\<bar> ^ 20"
  have "\<bar>sin x - T\<bar> \<le> eps"
    unfolding T_def eps_def by (rule Maclaurin_sin_bound)
  moreover have "\<bar>T * 2 ^ 53 - 8018801829250312\<bar> \<le> 1 / 5"
    unfolding T_def sin_poly x_def by (simp add: power_divide)
  moreover have "eps * 2 ^ 53 \<le> 1 / 10"
    unfolding eps_def x_def by (simp add: power_divide fact_numeral)
  ultimately have "\<bar>sin x * 2 ^ 53 - 8018801829250312\<bar> < 1 / 2"
    by (rule enclosure) simp
  then show ?thesis by (simp add: x_def)
qed

lemma cos_nan_input: "\<bar>cos (2472315279948587 / 2 ^ 51) * 2 ^ 54 - 8204500140244628\<bar> < (1 / 2 :: real)"
proof -
  define x :: real where "x = 2472315279948587 / 2 ^ 51"
  define T where "T = (\<Sum>m<20. cos_coeff m * x ^ m)"
  define eps where "eps = inverse (fact 20) * \<bar>x\<bar> ^ 20"
  have "\<bar>cos x - T\<bar> \<le> eps"
    unfolding T_def eps_def by (rule Maclaurin_cos_bound)
  moreover have "\<bar>T * 2 ^ 54 - 8204500140244628\<bar> \<le> 1 / 5"
    unfolding T_def cos_poly x_def by (simp add: power_divide)
  moreover have "eps * 2 ^ 54 \<le> 1 / 10"
    unfolding eps_def x_def by (simp add: power_divide fact_numeral)
  ultimately have "\<bar>cos x * 2 ^ 54 - 8204500140244628\<bar> < 1 / 2"
    by (rule enclosure) simp
  then show ?thesis by (simp add: x_def)
qed

lemma rd64_near:
  fixes n :: nat
  assumes "\<bar>x * 2 ^ n - of_int m\<bar> < 1 / 2" "2 ^ 52 < m" "m < 2 ^ 53" "n \<le> 1074"
  shows "rd64 x = of_int m / 2 ^ n"
proof -
  have "(2::int) ^ 52 + 1 \<le> m" "m + 1 \<le> (2::int) ^ 53" using assms(2,3) by simp_all
  then have "real_of_int ((2::int) ^ 52 + 1) \<le> of_int m" "real_of_int (m + 1) \<le> of_int ((2::int) ^ 53)"
    by (simp_all only: of_int_le_iff)
  then have m: "(2::real) ^ 52 + 1 \<le> of_int m" "of_int m + 1 \<le> (2::real) ^ 53"
    by simp_all
  have z: "0 < (2::real) ^ 52" by simp
  have pos: "0 < x * 2 ^ n" using assms(1) m z by linarith
  then have x: "0 < x" by (simp add: zero_less_mult_iff)
  then have ax: "\<bar>x\<bar> = x" by simp
  have "round_even (x * 2 ^ n) = m" using assms(1) by (rule round_even_near)
  moreover have "2 ^ 52 \<le> \<bar>x\<bar> * 2 ^ n" "\<bar>x\<bar> * 2 ^ n < 2 ^ 53"
    unfolding ax using assms(1) m by linarith+
  ultimately show ?thesis using assms(4) by (simp add: rd64_scaled)
qed

lemma rd64_one: "rd64 1 = 1"
  by (subst rd64_scaled[where n = 52]) (simp_all add: round_even_def)

lemma nan_step:
  "newton_step rd64 (2472315279948587 / 2 ^ 51) (8204500140244627 / 2 ^ 54)
     (1002350228656289 / 2 ^ 50) (Some (2472315279948587 / 2 ^ 51)) = None"
proof -
  define capu :: real where "capu = 2472315279948587 / 2 ^ 51"
  define axn :: real where "axn = 8204500140244627 / 2 ^ 54"
  define ayn :: real where "ayn = 1002350228656289 / 2 ^ 50"
  define c0 :: real where "c0 = 8204500140244628 / 2 ^ 54"
  define p0 :: real where "p0 = 7473335567195662 / 2 ^ 55"
  define a0 :: real where "a0 = 7138865362942076 / 2 ^ 53"
  define X0 :: real where "X0 = 7304186226151151 / 2 ^ 54"
  define t0 :: real where "t0 = 6237168006718772 / 2 ^ 53"
  define Y0 :: real where "Y0 = 7304186226151150 / 2 ^ 54"
  have s: "rd64 (sin capu) = ayn"
    unfolding capu_def ayn_def using sin_nan_input
    by (subst rd64_near[where n = 53 and m = 8018801829250312]) simp_all
  have c: "rd64 (cos capu) = c0"
    unfolding capu_def c0_def using cos_nan_input
    by (subst rd64_near[where n = 54 and m = 8204500140244628]) simp_all
  have p: "rd64 (c0 * axn) = p0"
    unfolding c0_def axn_def p0_def
    by (subst rd64_scaled[where n = 55]) (simp_all add: round_even_def Let_def)
  have a: "rd64 (1 - p0) = a0"
    unfolding p0_def a0_def
    by (subst rd64_scaled[where n = 53]) (simp_all add: round_even_def Let_def)
  have q: "rd64 (ayn * ayn) = a0"
    unfolding ayn_def a0_def
    by (subst rd64_scaled[where n = 53]) (simp_all add: round_even_def Let_def)
  have X: "rd64 (ayn * c0) = X0"
    unfolding ayn_def c0_def X0_def
    by (subst rd64_scaled[where n = 54]) (simp_all add: round_even_def Let_def)
  have t: "rd64 (capu - X0) = t0"
    unfolding capu_def X0_def t0_def
    by (subst rd64_scaled[where n = 53]) (simp_all add: round_even_def Let_def)
  have Y: "rd64 (axn * ayn) = Y0"
    unfolding axn_def ayn_def Y0_def
    by (subst rd64_scaled[where n = 54]) (simp_all add: round_even_def Let_def)
  have u: "rd64 (t0 + Y0) = capu"
    unfolding t0_def Y0_def capu_def
    by (subst rd64_scaled[where n = 52]) (simp_all add: round_even_def Let_def)
  have "newton_step rd64 capu axn ayn (Some capu) = None"
    by (simp add: newton_step_def Let_def s c p a q X t Y u rd64_one rd64_0)
  then show ?thesis by (simp add: capu_def axn_def ayn_def)
qed

lemma first_step_nan:
  assumes "newton_step rd capu axn ayn (Some capu) = None"
  shows "kepler rd capu axn ayn = None"
proof -
  from kepler_loop_trace[of 10 0 rd capu axn ayn "Some capu" "[]"]
  obtain steps where ok: "trace_ok rd capu axn ayn 10 (Some capu) (kepler rd capu axn ayn) steps"
    by (auto simp: kepler_def)
  then have "steps \<noteq> []"
    "steps ! 0 = newton_step rd capu axn ayn (foldl (nan_add rd) (Some capu) (take 0 steps))"
    by (auto simp: trace_ok_def)
  then have "None \<in> set steps" using assms by (cases steps) auto
  then show ?thesis using ok foldl_nan_add_eq_None[of rd capu steps] by (simp add: trace_ok_def)
qed

lemma nan_input_doubles:
  "rd64 1.0979285391726044 = 2472315279948587 / 2 ^ 51"
  "rd64 0.45544124806199554 = 8204500140244627 / 2 ^ 54"
  "rd64 0.890265842074002 = 1002350228656289 / 2 ^ 50"
  by (subst rd64_scaled[where n = 52], simp_all add: round_even_def Let_def)
     (subst rd64_scaled[where n = 54], simp_all add: round_even_def Let_def,
      subst rd64_scaled[where n = 53], simp_all add: round_even_def Let_def)

text \<open>
  Claim C3 as stated fails in the arithmetic of the source: at the doubles written
  \<open>1.0979285391726044\<close>, \<open>0.45544124806199554\<close> and \<open>0.890265842074002\<close>, for which
  \<open>axn\<^sup>2 + ayn\<^sup>2 < 1\<close>, the first pass rounds both the divisor and the numerator to 0,
  and the loop returns NaN.
\<close>

theorem kepler_nan_counterexample:
  "rd64 0.45544124806199554 * rd64 0.45544124806199554 +
   rd64 0.890265842074002 * rd64 0.890265842074002 < 1 \<and>
   kepler rd64 (rd64 1.0979285391726044) (rd64 0.45544124806199554) (rd64 0.890265842074002) = None"
proof -
  have "kepler rd64 (2472315279948587 / 2 ^ 51) (8204500140244627 / 2 ^ 54)
     (1002350228656289 / 2 ^ 50) = None"
    using nan_step by (rule first_step_nan)
  then show ?thesis unfolding nan_input_doubles by simp
qed

section \<open>The Kepler solver: the equation solved\<close>

text \<open>
  Claim C2, as amended. The residual the loop drives to zero is
  \<open>capu - ayn * cos eo1 + axn * sin eo1 - eo1\<close>, so the equation solved is
  \<open>capu = epw + ayn * cos epw - axn * sin epw\<close>. For every input with
  \<open>axn\<^sup>2 + ayn\<^sup>2 < 1\<close>, in exact arithmetic, if the loop ends on a step \<open>h\<close> of magnitude
  below \<open>1e-12\<close>, the angle it returns is a number and satisfies this equation up to
  \<open>h\<^sup>2\<close>, hence up to \<open>1e-12\<close>.
\<close>

theorem kepler_converged_residual:
  assumes "axn * axn + ayn * ayn < 1"
    and "kepler_loop exact capu axn ayn 0 (Some capu) [] = (r, steps)"
    and "converged exact (last steps)"
  shows "\<exists>epw h. r = Some epw \<and> kepler exact capu axn ayn = Some epw \<and> last steps = Some h \<and>
           \<bar>capu - ayn * cos epw + axn * sin epw - epw\<bar> \<le> h\<^sup>2 \<and>
           \<bar>capu - ayn * cos epw + axn * sin epw - epw\<bar> < 1 / 10 ^ 12"
proof -
  have k: "r = kepler exact capu axn ayn" using assms(2) by (simp add: kepler_def)
  from kepler_loop_trace[of 10 0 exact capu axn ayn "Some capu" "[]"] assms(2)
  have ok: "trace_ok exact capu axn ayn 10 (Some capu) r steps" by auto
  then have ne: "steps \<noteq> []" by (simp add: trace_ok_def)
  from trace_end[OF assms(1) ok ne] obtain E h where
    l: "last steps = Some h" and st: "newton_step exact capu axn ayn (Some E) = Some h"
    and r: "r = Some (E + h)" by blast
  have small: "\<bar>h\<bar> < 1 / 10 ^ 12" using assms(3) l by (simp add: converged_def exact_def)
  then have "\<bar>h\<bar> < 0.95" by simp
  from residual_after_step[OF assms(1) st this]
  have res: "\<bar>capu - ayn * cos (E + h) + axn * sin (E + h) - (E + h)\<bar> \<le> h\<^sup>2" .
  have "\<bar>h\<bar> * \<bar>h\<bar> \<le> \<bar>h\<bar> * 1"
    using small by (intro mult_left_mono) simp_all
  then have "h\<^sup>2 \<le> \<bar>h\<bar>" by (simp add: power2_eq_square abs_mult[symmetric])
  then have "h\<^sup>2 < 1 / 10 ^ 12" using small by linarith
  then have "\<bar>capu - ayn * cos (E + h) + axn * sin (E + h) - (E + h)\<bar> < 1 / 10 ^ 12"
    using res by linarith
  with res r k l show ?thesis by auto
qed

lemma cos_ge_7_8: assumes "\<bar>x\<bar> \<le> 1 / 2" shows "7 / 8 \<le> cos (x::real)"
proof -
  have "\<bar>cos x - 1\<bar> \<le> x\<^sup>2 / 2" by (rule cos_second_order)
  moreover have "\<bar>x\<bar> * \<bar>x\<bar> \<le> (1 / 2) * (1 / 2)" using assms by (intro mult_mono) simp_all
  then have "x\<^sup>2 \<le> 1 / 4" by (simp add: power2_eq_square abs_mult[symmetric])
  ultimately show ?thesis by linarith
qed

lemma half_step:
  assumes "- (1 / 2) \<le> E" "E \<le> 0"
  shows "\<exists>q. newton_step exact 0 0 (1 / 2) (Some E) = Some q \<and>
           - (1 / 2) \<le> E + q \<and> E + q \<le> 0 \<and>
           \<bar>q\<bar> \<le> \<bar>0 - (1 / 2) * cos E + 0 * sin E - E\<bar>"
proof -
  define s where "s = sin E"
  define c where "c = cos E"
  have "0 \<le> sin (- E)" using assms pi_ge_two by (intro sin_ge_zero) simp_all
  then have s: "s \<le> 0" by (simp add: s_def)
  have c: "0 < c" "c \<le> 1"
    using cos_ge_7_8[of E] assms by (simp_all add: c_def)
  define D where "D = 1 - s * (1 / 2)"
  have D: "1 \<le> D" using s by (simp add: D_def)
  define g where "g = - (1 / 2) * c - E"
  define q where "q = g / D"
  have Es: "0 \<le> E * s" using assms(2) s by (simp add: mult_nonpos_nonpos)
  have Ehs: "(E + 1 / 2) * s \<le> 0" using assms(1) s by (simp add: mult_nonneg_nonpos)
  have eq: "E + q = - (E * s + c) / (2 * D)"
    unfolding q_def g_def D_def using D by (simp add: D_def field_simps)
  have up: "E + q \<le> 0"
    unfolding eq using Es c D by (simp add: field_simps)
  have "E * s + c \<le> D" using Ehs c(2) by (simp add: D_def algebra_simps)
  then have lo: "- (1 / 2) \<le> E + q"
    unfolding eq using D by (simp add: field_simps)
  have q: "\<bar>q\<bar> \<le> 1 / 2" using up lo assms by linarith
  have "\<bar>q\<bar> = \<bar>g\<bar> / D" unfolding q_def using D by simp
  also have "\<dots> \<le> \<bar>g\<bar> / 1" using D by (intro divide_left_mono) simp_all
  finally have qg: "\<bar>q\<bar> \<le> \<bar>g\<bar>" by simp
  have "D \<noteq> 0" using D by simp
  then have "newton_step exact 0 0 (1 / 2) (Some E) =
          Some (if \<bar>q\<bar> \<ge> 0.95 then (if q > 0 then 0.95 else - 0.95) else q)"
    unfolding q_def g_def D_def s_def c_def by (simp add: newton_step_exact Let_def)
  also have "\<dots> = Some q" using q by simp
  finally show ?thesis using up lo qg unfolding g_def c_def by (intro exI[of _ q]) simp
qed

lemma half_contract:
  assumes "- (1 / 2) \<le> E" "E \<le> 0"
    and "newton_step exact 0 0 (1 / 2) (Some E) = Some h"
    and "newton_step exact 0 0 (1 / 2) (Some (E + h)) = Some h'"
  shows "\<bar>h'\<bar> \<le> h\<^sup>2"
proof -
  from half_step[OF assms(1,2)] assms(3)
  have r: "- (1 / 2) \<le> E + h" "E + h \<le> 0" by auto
  then have "\<bar>h\<bar> < 0.95" using assms(1,2) by simp
  moreover have e: "(0::real) * 0 + (1 / 2) * (1 / 2) < 1" by simp
  ultimately have "\<bar>0 - (1 / 2) * cos (E + h) + 0 * sin (E + h) - (E + h)\<bar> \<le> h\<^sup>2"
    using assms(3) by (intro residual_after_step)
  moreover from half_step[OF r] assms(4)
  have "\<bar>h'\<bar> \<le> \<bar>0 - (1 / 2) * cos (E + h) + 0 * sin (E + h) - (E + h)\<bar>" by auto
  ultimately show ?thesis by linarith
qed

lemma half_trace:
  assumes ok: "trace_ok exact 0 0 (1 / 2) n (Some 0) r steps"
  shows "k < length steps \<Longrightarrow>
         \<exists>E h. foldl (nan_add exact) (Some 0) (take k steps) = Some E \<and>
           - (1 / 2) \<le> E \<and> E \<le> 0 \<and> steps ! k = Some h \<and>
           newton_step exact 0 0 (1 / 2) (Some E) = Some h \<and> \<bar>h\<bar> \<le> (1 / 2) ^ (2 ^ k)"
proof (induction k)
  case 0
  have e: "(0::real) * 0 + (1 / 2) * (1 / 2) < 1" by simp
  from trace_at[OF e ok 0] obtain E h where
    E: "foldl (nan_add exact) (Some 0) (take 0 steps) = Some E" and h: "steps ! 0 = Some h"
    and st: "newton_step exact 0 0 (1 / 2) (Some E) = Some h" by blast
  have E0: "E = 0" using E by simp
  have "newton_step exact 0 0 (1 / 2) (Some 0) = Some (- (1 / 2))"
    by (simp add: newton_step_exact Let_def)
  then have "h = - (1 / 2)" using st E0 by simp
  then show ?case using E0 h st by simp
next
  case (Suc k)
  have e: "(0::real) * 0 + (1 / 2) * (1 / 2) < 1" by simp
  have k: "k < length steps" using Suc.prems by simp
  from Suc.IH[OF k] obtain E h where
    E: "foldl (nan_add exact) (Some 0) (take k steps) = Some E" "- (1 / 2) \<le> E" "E \<le> 0"
    and h: "steps ! k = Some h" "newton_step exact 0 0 (1 / 2) (Some E) = Some h"
      "\<bar>h\<bar> \<le> (1 / 2) ^ (2 ^ k)" by blast
  from trace_at[OF e ok k] E(1) h(1)
  have E': "foldl (nan_add exact) (Some 0) (take (Suc k) steps) = Some (E + h)" by auto
  from trace_at[OF e ok Suc.prems] E'
  obtain h' where h': "steps ! Suc k = Some h'"
    "newton_step exact 0 0 (1 / 2) (Some (E + h)) = Some h'" by auto
  from half_step[OF E(2,3)] h(2) have r: "- (1 / 2) \<le> E + h" "E + h \<le> 0" by auto
  have "\<bar>h'\<bar> \<le> h\<^sup>2" using E(2,3) h(2) h'(2) by (rule half_contract)
  also have "h\<^sup>2 = \<bar>h\<bar> * \<bar>h\<bar>" by (simp add: power2_eq_square abs_mult[symmetric])
  also have "\<dots> \<le> (1 / 2) ^ (2 ^ k) * (1 / 2) ^ (2 ^ k)"
    using h(3) by (intro mult_mono) simp_all
  also have "\<dots> = (1 / 2) ^ (2 ^ Suc k)"
    by (simp add: power_add[symmetric] mult_2)
  finally have "\<bar>h'\<bar> \<le> (1 / 2) ^ (2 ^ Suc k)" .
  with E' r h' show ?case by blast
qed

lemma half_run:
  assumes "kepler_loop exact 0 0 (1 / 2) 0 (Some 0) [] = (r, steps)"
  shows "converged exact (last steps) \<and> 2 \<le> length steps \<and>
         (\<exists>epw. r = Some epw \<and> - (1 / 2) \<le> epw \<and> epw \<le> 0)"
proof -
  from kepler_loop_trace[of 10 0 exact 0 0 "1 / 2" "Some 0" "[]"] assms
  have ok: "trace_ok exact 0 0 (1 / 2) 10 (Some 0) r steps" by auto
  then have ne: "steps \<noteq> []" and len: "length steps \<le> 10" by (simp_all add: trace_ok_def)
  have conv: "converged exact (last steps)"
  proof (cases "length steps < 10")
    case True
    then show ?thesis using ok by (simp add: trace_ok_def)
  next
    case False
    then have l: "length steps = 10" using len by simp
    then have "6 < length steps" by simp
    from half_trace[OF ok this] obtain h where
      h: "steps ! 6 = Some h" "\<bar>h\<bar> \<le> (1 / 2) ^ (2 ^ 6)" by blast
    have "(1 / 2 :: real) ^ (2 ^ 6) < 1 / 10 ^ 12" by (simp add: power_divide)
    then have "converged exact (steps ! 6)" using h by (simp add: converged_def exact_def)
    then have "Suc 6 = length steps" using ok l unfolding trace_ok_def by (metis \<open>6 < length steps\<close>)
    then show ?thesis using l by simp
  qed
  have "0 < length steps" using ne by simp
  from half_trace[OF ok this] have s0: "steps ! 0 = Some (- (1 / 2))"
    by (auto simp: newton_step_exact Let_def)
  have "length steps \<noteq> 1"
  proof
    assume "length steps = 1"
    then obtain x where "steps = [x]" by (cases steps) auto
    then show False using conv s0 by (simp add: converged_def exact_def)
  qed
  moreover have "length steps \<noteq> 0" using ne by simp
  ultimately have two: "2 \<le> length steps" by linarith
  have kl: "length steps - 1 < length steps" using ne by simp
  have e: "(0::real) * 0 + (1 / 2) * (1 / 2) < 1" by simp
  from half_trace[OF ok kl] obtain E h where
    E: "foldl (nan_add exact) (Some 0) (take (length steps - 1) steps) = Some E"
      "- (1 / 2) \<le> E" "E \<le> 0"
    and h: "steps ! (length steps - 1) = Some h" "newton_step exact 0 0 (1 / 2) (Some E) = Some h"
    by blast
  from trace_at[OF e ok kl] E(1) h(1)
  have "foldl (nan_add exact) (Some 0) (take (Suc (length steps - 1)) steps) = Some (E + h)" by auto
  moreover have "Suc (length steps - 1) = length steps" using ne by simp
  ultimately have r: "r = Some (E + h)" using ok by (simp add: trace_ok_def)
  from half_step[OF E(2,3)] h(2) have "- (1 / 2) \<le> E + h" "E + h \<le> 0" by auto
  with r conv two show ?thesis by blast
qed

theorem kepler_converged_residual_witness:
  "(0::real) * 0 + (1 / 2) * (1 / 2) < 1 \<and>
   (\<exists>r steps. kepler_loop exact 0 0 (1 / 2) 0 (Some 0) [] = (r, steps) \<and>
      converged exact (last steps) \<and> 2 \<le> length steps \<and>
      (\<exists>epw h. r = Some epw \<and> kepler exact 0 0 (1 / 2) = Some epw \<and> last steps = Some h \<and>
         \<bar>0 - (1 / 2) * cos epw + 0 * sin epw - epw\<bar> \<le> h\<^sup>2 \<and>
         \<bar>0 - (1 / 2) * cos epw + 0 * sin epw - epw\<bar> < 1 / 10 ^ 12 \<and>
         7 / 16 \<le> (1 / 2) * cos epw))"
proof -
  have e: "(0::real) * 0 + (1 / 2) * (1 / 2) < 1" by simp
  obtain r steps where st: "kepler_loop exact 0 0 (1 / 2) 0 (Some 0) [] = (r, steps)"
    by (cases "kepler_loop exact 0 0 (1 / 2) 0 (Some 0) []") auto
  from half_run[OF st] obtain epw0 where
    conv: "converged exact (last steps)" and two: "2 \<le> length steps"
    and r: "r = Some epw0" "- (1 / 2) \<le> epw0" "epw0 \<le> 0" by blast
  from kepler_converged_residual[OF e st conv] obtain epw h where
    c: "r = Some epw" "kepler exact 0 0 (1 / 2) = Some epw" "last steps = Some h"
      "\<bar>0 - (1 / 2) * cos epw + 0 * sin epw - epw\<bar> \<le> h\<^sup>2"
      "\<bar>0 - (1 / 2) * cos epw + 0 * sin epw - epw\<bar> < 1 / 10 ^ 12" by blast
  have "epw = epw0" using c(1) r(1) by simp
  then have "7 / 8 \<le> cos epw" using r(2,3) by (intro cos_ge_7_8) simp
  then have "7 / 16 \<le> (1 / 2) * cos epw" by simp
  with e st conv two c show ?thesis by blast
qed

text \<open>
  Claim C2 as stated fails: for \<open>capu = 0\<close>, \<open>axn = 0\<close>, \<open>ayn = 1/2\<close> every iterate
  stays in \<open>[-1/2, 0]\<close>, and the returned angle misses the equation
  \<open>capu = epw - ayn * cos epw + axn * sin epw\<close> by at least 7/16.
\<close>

theorem kepler_spec_equation_counterexample:
  "(0::real) * 0 + (1 / 2) * (1 / 2) < 1 \<and> kepler exact 0 0 (1 / 2) \<noteq> None \<and>
   \<not> \<bar>0 - (the (kepler exact 0 0 (1 / 2)) - (1 / 2) * cos (the (kepler exact 0 0 (1 / 2))) +
            0 * sin (the (kepler exact 0 0 (1 / 2))))\<bar> \<le> 1 / 10 ^ 12 \<and>
   7 / 16 \<le> \<bar>0 - (the (kepler exact 0 0 (1 / 2)) - (1 / 2) * cos (the (kepler exact 0 0 (1 / 2))) +
            0 * sin (the (kepler exact 0 0 (1 / 2))))\<bar>"
proof -
  obtain r steps where st: "kepler_loop exact 0 0 (1 / 2) 0 (Some 0) [] = (r, steps)"
    by (cases "kepler_loop exact 0 0 (1 / 2) 0 (Some 0) []") auto
  from half_run[OF st] obtain epw where
    r: "r = Some epw" "- (1 / 2) \<le> epw" "epw \<le> 0" by blast
  have k: "kepler exact 0 0 (1 / 2) = Some epw" using st r(1) by (simp add: kepler_def)
  have "7 / 8 \<le> cos epw" using r(2,3) by (intro cos_ge_7_8) simp
  then have "7 / 16 \<le> 0 - (epw - (1 / 2) * cos epw + 0 * sin epw)" using r by simp
  then have "7 / 16 \<le> \<bar>0 - (epw - (1 / 2) * cos epw + 0 * sin epw)\<bar>" by linarith
  then show ?thesis using k by simp
qed

section \<open>SGP4: error results\<close>





section \<open>Reusing an initialization state\<close>

text \<open>
  Claim C6. For every element set and time, evaluating with the initialization state
  computed once from the same elements gives the same result as evaluating without
  one, for SGP4 with \<open>sgp4init\<close> and for SDP4 with \<open>sdp4init\<close>.
\<close>

theorem cached_init_same_result:
  "sgp4 elements tsince (Some (sgp4init elements)) = sgp4 elements tsince None \<and>
   sdp4 elements tsince (Some (sdp4init elements)) = sdp4 elements tsince None"
  by (simp add: sgp4_def sdp4_def)

section \<open>Deep space: resonance classification\<close>

lemma TWOPI_pos: "0 < TWOPI" by (simp add: TWOPI_def PI_def)

text \<open>
  Claim C7. For every input of \<open>dsinit\<close> (with a mean motion \<open>xnodp\<close> that is not 0, so
  that the period \<open>2\<pi> / xnodp\<close> is a number): a period of at least 1200 minutes sets
  both the resonant and the synchronous flag; a period from 600 to 800 minutes sets the
  resonant flag and not the synchronous one; any other period leaves both false; and
  whenever the resonant flag is set, \<open>xli\<close> is the mean anomaly at epoch, \<open>xni\<close> is
  \<open>xnodp\<close> and \<open>atime\<close> is 0.
\<close>

theorem dsinit_resonance:
  assumes "xnodp \<noteq> 0"
  shows "let ds = dsinit epoch xnodp ecco inclo nodeo argpo mo; period = TWOPI / xnodp in
   (period \<ge> 1200 \<longrightarrow> ds_iresfl ds \<and> ds_isynfl ds) \<and>
   (600 \<le> period \<and> period \<le> 800 \<longrightarrow> ds_iresfl ds \<and> \<not> ds_isynfl ds) \<and>
   (\<not> period \<ge> 1200 \<and> \<not> (600 \<le> period \<and> period \<le> 800) \<longrightarrow> \<not> ds_iresfl ds \<and> \<not> ds_isynfl ds) \<and>
   (ds_iresfl ds \<longrightarrow> ds_xli ds = mo \<and> ds_xni ds = xnodp \<and> ds_atime ds = 0)"
  by (simp add: dsinit_def Let_def)

theorem dsinit_resonance_witness:
  "(let ds = dsinit 2451545 (TWOPI / 1436) 0 0 0 0 1 in
      ds_iresfl ds \<and> ds_isynfl ds \<and> ds_xli ds = 1 \<and> ds_xni ds = TWOPI / 1436 \<and> ds_atime ds = 0) \<and>
   (let ds = dsinit 2451545 (TWOPI / 718) 0 0 0 0 1 in
      ds_iresfl ds \<and> \<not> ds_isynfl ds \<and> ds_xli ds = 1 \<and> ds_xni ds = TWOPI / 718 \<and> ds_atime ds = 0) \<and>
   (let ds = dsinit 2451545 (TWOPI / 300) 0 0 0 0 1 in
      \<not> ds_iresfl ds \<and> \<not> ds_isynfl ds)"
proof -
  have nz: "TWOPI / 1436 \<noteq> 0" "TWOPI / 718 \<noteq> 0" "TWOPI / 300 \<noteq> 0"
    using TWOPI_pos by simp_all
  have p: "TWOPI / (TWOPI / 1436) = 1436" "TWOPI / (TWOPI / 718) = 718"
    "TWOPI / (TWOPI / 300) = 300"
    using TWOPI_pos by simp_all
  show ?thesis
    using dsinit_resonance[OF nz(1), of 2451545 0 0 0 0 1]
      dsinit_resonance[OF nz(2), of 2451545 0 0 0 0 1]
      dsinit_resonance[OF nz(3), of 2451545 0 0 0 0 1]
    unfolding Let_def p by simp
qed

section \<open>Deep space: the periodic step\<close>

text \<open>
  Claim C8. For every input of \<open>dsper\<close>: if the inclination with its periodic
  correction added is negative, the returned inclination is its negation, the returned
  node is the corrected node plus \<open>\<pi>\<close> and the returned argument of perigee is the
  corrected one minus \<open>\<pi>\<close>; otherwise the five elements are returned with only their
  periodic corrections added. The returned inclination is never negative.
\<close>

theorem dsper_reflection:
  "let r = dsper ds t em xinc omgadf xnode xmam;
       zms = ds_zmos ds + 1.19459 / 10 ^ 5 * t;
       zml = ds_zmol ds + 1.5835218 / 10 ^ 4 * t;
       em1 = em + (1.0 / 10 ^ 8 * sin zms + 0.5 / 10 ^ 8 * sin zml);
       xinc1 = xinc + 1.0 / 10 ^ 9 * cos zms;
       omgadf1 = omgadf + 1.0 / 10 ^ 8 * sin zms;
       xnode1 = xnode + 0.5 / 10 ^ 8 * sin zml;
       xmam1 = xmam + 1.0 / 10 ^ 7 * sin (2.0 * zms)
   in (xinc1 < 0 \<longrightarrow>
         per_xinc r = - xinc1 \<and> per_xnode r = xnode1 + PI \<and> per_omgadf r = omgadf1 - PI \<and>
         per_em r = em1 \<and> per_xmam r = xmam1) \<and>
      (\<not> xinc1 < 0 \<longrightarrow>
         r = \<lparr>per_em = em1, per_xinc = xinc1, per_omgadf = omgadf1, per_xnode = xnode1,
              per_xmam = xmam1\<rparr>) \<and>
      0 \<le> per_xinc r"
  by (simp add: dsper_def Let_def)

lemma still_ds_phase: "ds_zmos still_ds = 0" "ds_zmol still_ds = 0"
  by (simp_all add: still_ds_def)

theorem dsper_reflection_witness:
  "(let r = dsper still_ds 0 (1 / 10) (- 1) 2 3 4
    in per_xinc r = 1 - 1 / 10 ^ 9 \<and> per_xnode r = 3 + PI \<and> per_omgadf r = 2 - PI \<and>
       per_em r = 1 / 10 \<and> per_xmam r = 4) \<and>
   dsper still_ds 0 (1 / 10) 1 2 3 4 =
     \<lparr>per_em = 1 / 10, per_xinc = 1 + 1 / 10 ^ 9, per_omgadf = 2, per_xnode = 3,
      per_xmam = 4\<rparr>"
  using dsper_reflection[of still_ds 0 "1 / 10" "- 1" 2 3 4]
    dsper_reflection[of still_ds 0 "1 / 10" 1 2 3 4]
  by (simp add: Let_def still_ds_phase)

section \<open>Deep space: the secular step\<close>

lemma frac_trunc_bounds:
  fixes q :: real
  shows "- 1 < q - of_int (if 0 \<le> q then \<lfloor>q\<rfloor> else \<lceil>q\<rceil>)"
    and "q - of_int (if 0 \<le> q then \<lfloor>q\<rfloor> else \<lceil>q\<rceil>) < 1"
proof -
  have f: "- 1 < q - of_int \<lfloor>q\<rfloor>" "q - of_int \<lfloor>q\<rfloor> < 1" by linarith+
  have c: "- 1 < q - of_int \<lceil>q\<rceil>" "q - of_int \<lceil>q\<rceil> < 1" by linarith+
  show "- 1 < q - of_int (if 0 \<le> q then \<lfloor>q\<rfloor> else \<lceil>q\<rceil>)"
    using f(1) c(1) by (cases "0 \<le> q") simp_all
  show "q - of_int (if 0 \<le> q then \<lfloor>q\<rfloor> else \<lceil>q\<rceil>) < 1"
    using f(2) c(2) by (cases "0 \<le> q") simp_all
qed

lemma js_rem_bounds: assumes "0 < y" shows "- y < js_rem x y" "js_rem x y < y"
proof -
  let ?q = "x / y"
  let ?f = "?q - of_int (if 0 \<le> ?q then \<lfloor>?q\<rfloor> else \<lceil>?q\<rceil>)"
  have eq: "js_rem x y = y * ?f"
    unfolding js_rem_def using assms by (simp add: right_diff_distrib)
  have "y * (- 1) < y * ?f" using frac_trunc_bounds(1)[of ?q] assms
    by (rule_tac mult_strict_left_mono)
  then show "- y < js_rem x y" using eq by simp
  have "y * ?f < y * 1" using frac_trunc_bounds(2)[of ?q] assms
    by (rule_tac mult_strict_left_mono)
  then show "js_rem x y < y" using eq by simp
qed

lemma wrap_range: assumes "0 < y"
  shows "0 \<le> (if js_rem x y < 0 then js_rem x y + y else js_rem x y)"
    and "(if js_rem x y < 0 then js_rem x y + y else js_rem x y) < y"
  using js_rem_bounds[OF assms, of x] by auto

lemma wrap_congruent:
  "\<exists>k::int. (if js_rem x y < 0 then js_rem x y + y else js_rem x y) = x - y * of_int k"
proof (cases "js_rem x y < 0")
  case True
  have "js_rem x y + y = x - y * of_int ((if 0 \<le> x / y then \<lfloor>x / y\<rfloor> else \<lceil>x / y\<rceil>) - 1)"
    unfolding js_rem_def by (simp add: algebra_simps)
  with True show ?thesis by (metis (full_types))
next
  case False
  then show ?thesis unfolding js_rem_def by auto
qed

text \<open>
  Claim C9. For every input of \<open>dssec\<close>, the returned mean anomaly lies in
  \<open>[0, 2\<pi>)\<close> and differs by a whole number of turns from the starting mean anomaly plus
  \<open>dmdt * t\<close> plus its phase-dependent correction; eccentricity, inclination, argument
  of perigee and node are the starting values plus \<open>rate * t\<close> plus their
  phase-dependent corrections, unwrapped.
\<close>

theorem dssec_wraps_mean_anomaly_only:
  "let r = dssec ds t ecco inclo nodeo argpo mo;
       zms = ds_zmos ds + 1.19459 / 10 ^ 5 * t;
       zml = ds_zmol ds + 1.5835218 / 10 ^ 4 * t;
       f2s = 0.5 * sin zms * sin zms - 0.25;
       f3s = - 0.5 * sin zms * cos zms;
       f2l = 0.5 * sin zml * sin zml - 0.25;
       f3l = - 0.5 * sin zml * cos zml;
       pe = (ds_se2 ds * f2s + ds_se3 ds * f3s) + (ds_ee2 ds * f2l + ds_e3 ds * f3l);
       pinc = (ds_si2 ds * f2s + ds_si3 ds * f3s) + (ds_xi2 ds * f2l + ds_xi3 ds * f3l);
       pl = (ds_sl2 ds * f2s + ds_sl3 ds * f3s + ds_sl4 ds * sin zms) +
            (ds_xl2 ds * f2l + ds_xl3 ds * f3l + ds_xl4 ds * sin zml);
       pgh = (ds_sgh2 ds * f2s + ds_sgh3 ds * f3s + ds_sgh4 ds * sin zms) +
             (ds_xgh2 ds * f2l + ds_xgh3 ds * f3l + ds_xgh4 ds * sin zml);
       ph = (ds_sh2 ds * f2s + ds_sh3 ds * f3s) + (ds_xh2 ds * f2l + ds_xh3 ds * f3l)
   in 0 \<le> sec_xmam r \<and> sec_xmam r < TWOPI \<and>
      (\<exists>k::int. sec_xmam r = mo + ds_dmdt ds * t + pl - TWOPI * of_int k) \<and>
      sec_e r = ecco + ds_dedt ds * t + pe \<and>
      sec_xinc r = inclo + ds_didt ds * t + pinc \<and>
      sec_omgadf r = argpo + ds_domdt ds * t + pgh \<and>
      sec_xnode r = nodeo + ds_dnodt ds * t + ph"
proof -
  define pl where "pl =
    (let zms = ds_zmos ds + 1.19459 / 10 ^ 5 * t;
         zml = ds_zmol ds + 1.5835218 / 10 ^ 4 * t;
         f2s = 0.5 * sin zms * sin zms - 0.25;
         f3s = - 0.5 * sin zms * cos zms;
         f2l = 0.5 * sin zml * sin zml - 0.25;
         f3l = - 0.5 * sin zml * cos zml
     in (ds_sl2 ds * f2s + ds_sl3 ds * f3s + ds_sl4 ds * sin zms) +
        (ds_xl2 ds * f2l + ds_xl3 ds * f3l + ds_xl4 ds * sin zml))"
  let ?r = "dssec ds t ecco inclo nodeo argpo mo"
  let ?x = "mo + ds_dmdt ds * t + pl"
  have x: "sec_xmam ?r =
      (if js_rem ?x TWOPI < 0 then js_rem ?x TWOPI + TWOPI else js_rem ?x TWOPI)"
    by (simp add: dssec_def pl_def Let_def)
  have 1: "0 \<le> sec_xmam ?r" "sec_xmam ?r < TWOPI"
    unfolding x using wrap_range[OF TWOPI_pos] by blast+
  have 2: "\<exists>k::int. sec_xmam ?r = ?x - TWOPI * of_int k"
    unfolding x by (rule wrap_congruent)
  show ?thesis
    unfolding Let_def using 1 2 by (simp add: dssec_def pl_def Let_def)
qed

section \<open>Deep space: decay\<close>

text \<open>
  Claim C10. For every element set, time and initialization state, \<open>sdp4\<close> and \<open>sdp8\<close>
  return the message "Satellite has decayed" exactly when the eccentricity after the
  deep-space secular and periodic corrections (for \<open>sdp8\<close> with its \<open>edot * t\<close> term) is
  at least 1.0 or below -0.001. The semi-major axis is not compared with anything:
  replacing \<open>aodp\<close> in the initialization state by any other value leaves the decay
  outcome as it is.
\<close>

theorem deep_space_decay_on_eccentricity_only:
  "(let ds = d4_ds state4;
        zms = ds_zmos ds + 1.19459 / 10 ^ 5 * tsince;
        zml = ds_zmol ds + 1.5835218 / 10 ^ 4 * tsince;
        f2s = 0.5 * sin zms * sin zms - 0.25;
        f3s = - 0.5 * sin zms * cos zms;
        f2l = 0.5 * sin zml * sin zml - 0.25;
        f3l = - 0.5 * sin zml * cos zml;
        e = el_ecco elements + ds_dedt ds * tsince +
              ((ds_se2 ds * f2s + ds_se3 ds * f3s) + (ds_ee2 ds * f2l + ds_e3 ds * f3l));
        em = e + (1.0 / 10 ^ 8 * sin zms + 0.5 / 10 ^ 8 * sin zml)
    in (r_errorMessage (sdp4 elements tsince (Some state4)) = Some ''Satellite has decayed''
          \<longleftrightarrow> em \<ge> 1.0 \<or> em < - 0.001) \<and>
       per_em (sec4d_periodic (sdp4_secular state4 elements tsince)) = em) \<and>
   (let ds = d8_ds state8;
        zms = ds_zmos ds + 1.19459 / 10 ^ 5 * tsince;
        zml = ds_zmol ds + 1.5835218 / 10 ^ 4 * tsince;
        f2s = 0.5 * sin zms * sin zms - 0.25;
        f3s = - 0.5 * sin zms * cos zms;
        f2l = 0.5 * sin zml * sin zml - 0.25;
        f3l = - 0.5 * sin zml * cos zml;
        e = el_ecco elements + ds_dedt ds * tsince +
              ((ds_se2 ds * f2s + ds_se3 ds * f3s) + (ds_ee2 ds * f2l + ds_e3 ds * f3l));
        em = e + d8_edot state8 * tsince + (1.0 / 10 ^ 8 * sin zms + 0.5 / 10 ^ 8 * sin zml)
    in (r_errorMessage (sdp8 elements tsince (Some state8)) = Some ''Satellite has decayed''
          \<longleftrightarrow> em \<ge> 1.0 \<or> em < - 0.001) \<and>
       per_em (sdp8_secular state8 elements tsince) = em) \<and>
   (\<forall>aodp. (r_errorMessage (sdp4 elements tsince (Some (state4\<lparr>d4_aodp := aodp\<rparr>))) =
              Some ''Satellite has decayed'') =
            (r_errorMessage (sdp4 elements tsince (Some state4)) = Some ''Satellite has decayed'')) \<and>
   (\<forall>aodp. (r_errorMessage (sdp8 elements tsince (Some (state8\<lparr>d8_aodp := aodp\<rparr>))) =
              Some ''Satellite has decayed'') =
            (r_errorMessage (sdp8 elements tsince (Some state8)) = Some ''Satellite has decayed'')) \<and>
   sdp4 elements tsince None = sdp4 elements tsince (Some (sdp4init elements)) \<and>
   sdp8 elements tsince None = sdp8 elements tsince (Some (sdp8init elements))"
proof -
  have e4: "per_em (sec4d_periodic (sdp4_secular st elements tsince)) =
          (let ds = d4_ds st;
        zms = ds_zmos ds + 1.19459 / 10 ^ 5 * tsince;
        zml = ds_zmol ds + 1.5835218 / 10 ^ 4 * tsince;
        f2s = 0.5 * sin zms * sin zms - 0.25;
        f3s = - 0.5 * sin zms * cos zms;
        f2l = 0.5 * sin zml * sin zml - 0.25;
        f3l = - 0.5 * sin zml * cos zml;
        e = el_ecco elements + ds_dedt ds * tsince +
              ((ds_se2 ds * f2s + ds_se3 ds * f3s) + (ds_ee2 ds * f2l + ds_e3 ds * f3l))
        in e + (1.0 / 10 ^ 8 * sin zms + 0.5 / 10 ^ 8 * sin zml))" for st
    by (simp add: sdp4_secular_def dssec_def dsper_def Let_def)
  have e8: "per_em (sdp8_secular st elements tsince) =
          (let ds = d8_ds st;
        zms = ds_zmos ds + 1.19459 / 10 ^ 5 * tsince;
        zml = ds_zmol ds + 1.5835218 / 10 ^ 4 * tsince;
        f2s = 0.5 * sin zms * sin zms - 0.25;
        f3s = - 0.5 * sin zms * cos zms;
        f2l = 0.5 * sin zml * sin zml - 0.25;
        f3l = - 0.5 * sin zml * cos zml;
        e = el_ecco elements + ds_dedt ds * tsince +
              ((ds_se2 ds * f2s + ds_se3 ds * f3s) + (ds_ee2 ds * f2l + ds_e3 ds * f3l))
        in e + d8_edot st * tsince + (1.0 / 10 ^ 8 * sin zms + 0.5 / 10 ^ 8 * sin zml))" for st
    by (simp add: sdp8_secular_def dssec_def dsper_def Let_def)
  have m4: "(r_errorMessage (sdp4 elements tsince (Some st)) = Some ''Satellite has decayed'') =
        (per_em (sec4d_periodic (sdp4_secular st elements tsince)) \<ge> 1.0 \<or>
         per_em (sec4d_periodic (sdp4_secular st elements tsince)) < - 0.001)" for st
    by (simp add: sdp4_def Let_def)
  have m8: "(r_errorMessage (sdp8 elements tsince (Some st)) = Some ''Satellite has decayed'') =
        (per_em (sdp8_secular st elements tsince) \<ge> 1.0 \<or>
         per_em (sdp8_secular st elements tsince) < - 0.001)" for st
    by (simp add: sdp8_def Let_def)
  have n: "sdp4 elements tsince None = sdp4 elements tsince (Some (sdp4init elements))"
    "sdp8 elements tsince None = sdp8 elements tsince (Some (sdp8init elements))"
    by (simp_all add: sdp4_def sdp8_def)
  have i4: "per_em (sec4d_periodic (sdp4_secular (state4\<lparr>d4_aodp := aodp\<rparr>) elements tsince)) =
            per_em (sec4d_periodic (sdp4_secular state4 elements tsince))" for aodp
    unfolding e4 by simp
  have i8: "per_em (sdp8_secular (state8\<lparr>d8_aodp := aodp\<rparr>) elements tsince) =
            per_em (sdp8_secular state8 elements tsince)" for aodp
    unfolding e8 by simp
  show ?thesis
    unfolding m4 m8 i4 i8 using n by (simp add: e4 e8 Let_def)
qed

section \<open>SGP4 initialization: reading fields of the state\<close>

text \<open>
  \<open>sgp4init\<close> is one long chain of bindings. A field of its result is read by moving
  the selector inwards through the bindings and dropping those the field does not use.
\<close>

lemma app_Let: "f (Let a g) = Let a (\<lambda>x. f (g x))"
  by simp

lemma Let_dead: "Let a (\<lambda>x. c) = c"
  by simp

lemma case_prod_dead: "case_prod (\<lambda>a b. c) p = c"
  by (cases p) simp

lemma sgp4init_a: "s4_a (sgp4init el) = snd (recovered el)"
  unfolding sgp4init_def recovered_def
  apply (simp only: app_Let[of s4_a] app_Let[of snd] prod.case_distrib[of s4_a]
      Sgp4InitState.select_convs snd_conv Let_dead case_prod_dead)
  done

lemma sgp4init_no: "s4_no (sgp4init el) = fst (recovered el)"
  unfolding sgp4init_def recovered_def
  apply (simp only: app_Let[of s4_no] app_Let[of fst] prod.case_distrib[of s4_no]
      Sgp4InitState.select_convs fst_conv Let_dead case_prod_dead)
  done

lemma sgp4init_isimp:
  "s4_isimp (sgp4init el) =
     (if (snd (recovered el) * (1.0 - el_ecco el) / AE) < (220.0 / XKMPER + AE) then 1 else 0)"
  unfolding sgp4init_def
  apply (simp only: app_Let[of s4_isimp] prod.case_distrib[of s4_isimp]
      Sgp4InitState.select_convs Let_dead case_prod_dead)
  apply (simp only: Let_def recovered_def snd_conv)
  done

lemma sgp4init_altp:
  "s4_altp (sgp4init el) = (snd (recovered el) * (1.0 - el_ecco el) - AE) * XKMPER"
  unfolding sgp4init_def
  apply (simp only: app_Let[of s4_altp] prod.case_distrib[of s4_altp]
      Sgp4InitState.select_convs Let_dead case_prod_dead)
  apply (simp only: Let_def recovered_def snd_conv)
  done

lemma simp_coeffs_zero_record:
  "simp_coeffs_zero
     \<lparr>s4_method = v1, s4_isimp = isimp, s4_aycof = v3, s4_con41 = v4, s4_cc1 = v5,
      s4_cc4 = v6, s4_cc5 = v7, s4_d2 = d2, s4_d3 = d3, s4_d4 = d4, s4_delmo = v11,
      s4_eta = v12, s4_argpdot = v13, s4_omgcof = v14, s4_sinmao = v15, s4_t = v16,
      s4_t2cof = v17, s4_t3cof = t3cof, s4_t4cof = t4cof, s4_t5cof = t5cof,
      s4_x1mth2 = v21, s4_x7thm1 = v22, s4_mdot = v23, s4_nodedot = v24, s4_xlcof = v25,
      s4_xmcof = v26, s4_nodecf = v27, s4_a = v28, s4_altp = v29, s4_alta = v30,
      s4_epochdays = v31, s4_jdsatepoch = v32, s4_nddot = v33, s4_ndot = v34,
      s4_bstar = v35, s4_rcse = v36, s4_inclo = v37, s4_nodeo = v38, s4_ecco = v39,
      s4_argpo = v40, s4_mo = v41, s4_no = v42, s4_init = v43\<rparr> =
   (isimp \<noteq> 0 \<longrightarrow> d2 = 0 \<and> d3 = 0 \<and> d4 = 0 \<and> t3cof = 0 \<and> t4cof = 0 \<and> t5cof = 0)"
  by (simp add: simp_coeffs_zero_def)

lemma tuple_if_zero:
  "(let (d2, d3, d4, t3cof, t4cof, t5cof) =
          (if c then T else (0.0, 0.0, 0.0, 0.0, 0.0, 0.0::real))
    in (\<not> c \<longrightarrow> d2 = (0::real) \<and> d3 = (0::real) \<and> d4 = (0::real) \<and> t3cof = (0::real) \<and>
          t4cof = (0::real) \<and> t5cof = 0)) = True"
  by (simp split: prod.splits)

lemma sgp4init_coeffs: "simp_coeffs_zero (sgp4init el)"
  unfolding sgp4init_def
  apply (simp only: app_Let[of simp_coeffs_zero] prod.case_distrib[of simp_coeffs_zero]
      simp_coeffs_zero_record tuple_if_zero Let_dead case_prod_dead)
  done

lemma eta_ok_record:
  "eta_ok el
     \<lparr>s4_method = v1, s4_isimp = v2, s4_aycof = v3, s4_con41 = v4, s4_cc1 = v5,
      s4_cc4 = v6, s4_cc5 = v7, s4_d2 = v8, s4_d3 = v9, s4_d4 = v10, s4_delmo = v11,
      s4_eta = eta, s4_argpdot = v13, s4_omgcof = v14, s4_sinmao = v15, s4_t = v16,
      s4_t2cof = v17, s4_t3cof = v18, s4_t4cof = v19, s4_t5cof = v20,
      s4_x1mth2 = v21, s4_x7thm1 = v22, s4_mdot = v23, s4_nodedot = v24, s4_xlcof = v25,
      s4_xmcof = v26, s4_nodecf = v27, s4_a = aodp, s4_altp = altp, s4_alta = v30,
      s4_epochdays = v31, s4_jdsatepoch = v32, s4_nddot = v33, s4_ndot = v34,
      s4_bstar = v35, s4_rcse = v36, s4_inclo = v37, s4_nodeo = v38, s4_ecco = v39,
      s4_argpo = v40, s4_mo = v41, s4_no = v42, s4_init = v43\<rparr> =
   (eta = aodp * el_ecco el * (1 / (aodp - density_s altp)))"
  by (simp add: eta_ok_def)

lemma sgp4init_eta_ok: "eta_ok el (sgp4init el)"
  unfolding sgp4init_def
  apply (simp only: app_Let[of "eta_ok el"] prod.case_distrib[of "eta_ok el"]
      eta_ok_record Let_dead case_prod_dead)
  apply (simp add: Let_def density_s_def)
  done

section \<open>SGP4 initialization: the simplified mode\<close>

lemma cube_powr_tothrd: "0 < c \<Longrightarrow> (c ^ 3) powr TOTHRD = c ^ 2" for c :: real
proof -
  assume c: "0 < c"
  have "(c ^ 3) powr TOTHRD = (c powr 3) powr (2 / 3)"
    using c by (simp add: TOTHRD_def powr_numeral)
  also have "\<dots> = c powr 2" by (simp add: powr_powr)
  also have "\<dots> = c ^ 2" using c by (simp add: powr_numeral)
  finally show ?thesis .
qed

lemma sqrt_9216: "sqrt (576 / 625) = (24 / 25::real)"
  by (rule real_sqrt_unique) (simp_all add: power2_eq_square)

lemma low_perigee_a1: "(XKE / el_no low_perigee) powr TOTHRD = 1.430416"
proof -
  have "XKE / el_no low_perigee = 1.196 ^ 3"
    by (simp add: low_perigee_def elements_of_def XKE_def)
  then show ?thesis using cube_powr_tothrd[of "1.196"] by (simp add: power2_eq_square)
qed

lemma low_perigee_aodp:
  "snd (recovered low_perigee) * (1.0 - el_ecco low_perigee) / AE < 220.0 / XKMPER + AE"
  "\<not> (snd (recovered low_perigee) * (1.0 - el_ecco low_perigee) - AE) * XKMPER < 156"
proof -
  have e: "el_ecco low_perigee = 0.28" "el_inclo low_perigee = 0"
    by (simp_all add: low_perigee_def elements_of_def)
  show "snd (recovered low_perigee) * (1.0 - el_ecco low_perigee) / AE < 220.0 / XKMPER + AE"
    unfolding recovered_def Let_def low_perigee_a1 e snd_conv
    by (simp add: CK2_def XJ2_def AE_def XKMPER_def TOTHRD_def sqrt_9216)
  show "\<not> (snd (recovered low_perigee) * (1.0 - el_ecco low_perigee) - AE) * XKMPER < 156"
    unfolding recovered_def Let_def low_perigee_a1 e snd_conv
    by (simp add: CK2_def XJ2_def AE_def XKMPER_def TOTHRD_def sqrt_9216)
qed

lemma sgp4_secular_simplified:
  "s4_isimp st \<noteq> 0 \<Longrightarrow>
   sgp4_secular st t =
     \<lparr>sec4_omega = s4_argpo st + s4_argpdot st * t,
      sec4_xnode = s4_nodeo st + s4_nodedot st * t + s4_nodecf st * (t * t),
      sec4_a = s4_a st * (1 - s4_cc1 st * t) * (1 - s4_cc1 st * t),
      sec4_e = s4_ecco st - s4_bstar st * s4_cc4 st * t,
      sec4_xl = (s4_mo st + s4_mdot st * t) + (s4_argpo st + s4_argpdot st * t) +
                (s4_nodeo st + s4_nodedot st * t + s4_nodecf st * (t * t)) +
                s4_no st * (s4_t2cof st * (t * t))\<rparr>"
  by (simp add: sgp4_secular_def Let_def)

lemma sgp4_secular_full_a:
  "s4_isimp st = 0 \<Longrightarrow>
   sec4_a (sgp4_secular st t) =
     s4_a st * (1 - s4_cc1 st * t - s4_d2 st * (t * t) - s4_d3 st * (t * t * t) -
                s4_d4 st * (t * (t * t * t))) *
               (1 - s4_cc1 st * t - s4_d2 st * (t * t) - s4_d3 st * (t * t * t) -
                s4_d4 st * (t * (t * t * t)))"
  by (simp add: sgp4_secular_def Let_def)

lemma XKMPER_pos: "0 < XKMPER" by (simp add: XKMPER_def)

text \<open>
  Claim C5, as amended. \<open>sgp4init\<close> sets the simplified flag (to 1, otherwise it is 0)
  exactly when the perigee radius \<open>aodp * (1 - ecco) / AE\<close> is below
  \<open>220 / XKMPER + AE\<close>, that is when the perigee altitude \<open>altp\<close> is below 220 km. With
  the flag set, \<open>d2\<close>, \<open>d3\<close>, \<open>d4\<close>, \<open>t3cof\<close>, \<open>t4cof\<close> and \<open>t5cof\<close> are 0 and the
  secular update of \<open>sgp4\<close> takes the lower-order path. The flag has no threshold at
  156 km or at 98 km: these two choose the density parameter \<open>s\<close> (78 km from 156 km of
  perigee altitude on, the perigee altitude less 78 km below that, 20 km at 98 km and
  below; each over \<open>XKMPER\<close>, plus \<open>AE\<close>), with which \<open>eta\<close> is computed.
\<close>

theorem sgp4init_simplified_mode:
  "let state = sgp4init elements; ecco = el_ecco elements; aodp = s4_a state
   in (s4_isimp state = 1 \<or> s4_isimp state = 0) \<and>
      (s4_isimp state = 1 \<longleftrightarrow> aodp * (1 - ecco) / AE < 220 / XKMPER + AE) \<and>
      (s4_isimp state = 1 \<longleftrightarrow> s4_altp state < 220) \<and>
      (s4_isimp state = 1 \<longrightarrow>
         s4_d2 state = 0 \<and> s4_d3 state = 0 \<and> s4_d4 state = 0 \<and>
         s4_t3cof state = 0 \<and> s4_t4cof state = 0 \<and> s4_t5cof state = 0 \<and>
         (\<forall>t. sgp4_secular state t =
            \<lparr>sec4_omega = s4_argpo state + s4_argpdot state * t,
             sec4_xnode = s4_nodeo state + s4_nodedot state * t + s4_nodecf state * (t * t),
             sec4_a = aodp * (1 - s4_cc1 state * t) * (1 - s4_cc1 state * t),
             sec4_e = s4_ecco state - s4_bstar state * s4_cc4 state * t,
             sec4_xl = (s4_mo state + s4_mdot state * t) +
                       (s4_argpo state + s4_argpdot state * t) +
                       (s4_nodeo state + s4_nodedot state * t + s4_nodecf state * (t * t)) +
                       s4_no state * (s4_t2cof state * (t * t))\<rparr>)) \<and>
      (let perige = s4_altp state;
           s = (if perige < 156 then (if perige \<le> 98 then 20 else perige - 78) / XKMPER + AE
                else 78 / XKMPER + AE)
       in s4_eta state = aodp * ecco * (1 / (aodp - s)))"
proof -
  let ?st = "sgp4init elements"
  let ?c = "snd (recovered elements) * (1 - el_ecco elements) / AE < 220 / XKMPER + AE"
  have i: "s4_isimp ?st = (if ?c then 1 else 0)"
    using sgp4init_isimp[of elements] by simp
  have a: "s4_a ?st = snd (recovered elements)" by (rule sgp4init_a)
  have "s4_altp ?st = (snd (recovered elements) * (1 - el_ecco elements) - AE) * XKMPER"
    using sgp4init_altp[of elements] by simp
  then have "s4_altp ?st < 220 \<longleftrightarrow>
      snd (recovered elements) * (1 - el_ecco elements) - 1 < 220 / XKMPER"
    using XKMPER_pos by (simp add: AE_def pos_less_divide_eq)
  also have "\<dots> \<longleftrightarrow> ?c" by (auto simp add: AE_def)
  finally have alt: "s4_altp ?st < 220 \<longleftrightarrow> ?c" .
  have z: "s4_isimp ?st = 1 \<longrightarrow>
         s4_d2 ?st = 0 \<and> s4_d3 ?st = 0 \<and> s4_d4 ?st = 0 \<and>
         s4_t3cof ?st = 0 \<and> s4_t4cof ?st = 0 \<and> s4_t5cof ?st = 0"
    using sgp4init_coeffs[of elements] by (simp add: simp_coeffs_zero_def)
  have p: "s4_isimp ?st = 1 \<longrightarrow> (\<forall>t. sgp4_secular ?st t =
            \<lparr>sec4_omega = s4_argpo ?st + s4_argpdot ?st * t,
             sec4_xnode = s4_nodeo ?st + s4_nodedot ?st * t + s4_nodecf ?st * (t * t),
             sec4_a = s4_a ?st * (1 - s4_cc1 ?st * t) * (1 - s4_cc1 ?st * t),
             sec4_e = s4_ecco ?st - s4_bstar ?st * s4_cc4 ?st * t,
             sec4_xl = (s4_mo ?st + s4_mdot ?st * t) +
                       (s4_argpo ?st + s4_argpdot ?st * t) +
                       (s4_nodeo ?st + s4_nodedot ?st * t + s4_nodecf ?st * (t * t)) +
                       s4_no ?st * (s4_t2cof ?st * (t * t))\<rparr>)"
    using sgp4_secular_simplified[of ?st] by simp
  have 1: "s4_isimp ?st = 1 \<or> s4_isimp ?st = 0" using i by simp
  have 2: "s4_isimp ?st = 1 \<longleftrightarrow> s4_a ?st * (1 - el_ecco elements) / AE < 220 / XKMPER + AE"
    unfolding a using i by simp
  have 3: "s4_isimp ?st = 1 \<longleftrightarrow> s4_altp ?st < 220" unfolding alt using i by simp
  have 4: "s4_eta ?st = s4_a ?st * el_ecco elements *
      (1 / (s4_a ?st -
        (if s4_altp ?st < 156 then (if s4_altp ?st \<le> 98 then 20 else s4_altp ?st - 78) / XKMPER + AE
         else 78 / XKMPER + AE)))"
    using sgp4init_eta_ok[of elements] by (simp only: eta_ok_def density_s_def)
  show ?thesis unfolding Let_def using 1 2 3 4 z p by blast
qed

lemma low_perigee_flag: "s4_isimp (sgp4init low_perigee) = 1"
  unfolding sgp4init_isimp using low_perigee_aodp(1) by simp

lemma low_perigee_altp: "\<not> s4_altp (sgp4init low_perigee) < 156"
  unfolding sgp4init_altp using low_perigee_aodp(2) by simp

theorem sgp4init_simplified_mode_witness:
  "s4_a (sgp4init low_perigee) * (1 - el_ecco low_perigee) / AE < 220 / XKMPER + AE \<and>
   s4_isimp (sgp4init low_perigee) = 1 \<and> s4_altp (sgp4init low_perigee) < 220 \<and>
   s4_d2 (sgp4init low_perigee) = 0 \<and> s4_d3 (sgp4init low_perigee) = 0 \<and>
   s4_d4 (sgp4init low_perigee) = 0 \<and> s4_t3cof (sgp4init low_perigee) = 0 \<and>
   s4_t4cof (sgp4init low_perigee) = 0 \<and> s4_t5cof (sgp4init low_perigee) = 0"
proof -
  have h: "s4_a (sgp4init low_perigee) * (1 - el_ecco low_perigee) / AE < 220 / XKMPER + AE"
    unfolding sgp4init_a using low_perigee_aodp(1) by simp
  from sgp4init_simplified_mode[of low_perigee] h show ?thesis
    unfolding Let_def by blast
qed

text \<open>
  Claim C5 as stated fails: for the element set with mean motion \<open>XKE / 1.196\<^sup>3\<close>,
  eccentricity 0.28 and inclination 0 the perigee altitude is not below 156 km, and the
  simplified flag is set and \<open>d2\<close> is 0.
\<close>

theorem simplified_mode_156_counterexample:
  "s4_isimp (sgp4init (elements_of (XKE / 1.196 ^ 3) 0.28 0)) = 1 \<and>
   s4_d2 (sgp4init (elements_of (XKE / 1.196 ^ 3) 0.28 0)) = 0 \<and>
   \<not> s4_altp (sgp4init (elements_of (XKE / 1.196 ^ 3) 0.28 0)) < 156"
proof -
  have "s4_d2 (sgp4init low_perigee) = 0"
    using sgp4init_coeffs[of low_perigee] low_perigee_flag by (simp add: simp_coeffs_zero_def)
  then show ?thesis
    using low_perigee_flag low_perigee_altp unfolding low_perigee_def by simp
qed

section \<open>The dispatcher\<close>

lemma TWOPI_bounds: "4 \<le> TWOPI" "TWOPI < 8"
  using pi_ge_two pi_less_4 by (simp_all add: TWOPI_def PI_def)

lemma sgp4_algorithm: "r_algorithm (sgp4 elements tsince initState) = SGP4"
  by (simp add: sgp4_def Let_def)

lemma sdp4_algorithm: "r_algorithm (sdp4 elements tsince initState) = SDP4"
  by (simp add: sdp4_def Let_def)

text \<open>
  Claim C1, as amended. For every element set with a mean motion \<open>no\<close> that is not 0,
  the dispatcher selects SGP4 exactly when the period \<open>2\<pi> / no\<close>, computed from the
  mean motion of the element set as it is encoded, is strictly below 225 minutes, and
  SDP4 otherwise; a period of exactly 225 goes to SDP4.
\<close>

theorem propagate_dispatch:
  assumes "el_no elements \<noteq> 0"
  shows "let period = TWOPI / el_no elements; res = propagate elements tsince
         in (period < 225 \<longrightarrow> res = sgp4 elements tsince None \<and> r_algorithm res = SGP4) \<and>
            (\<not> period < 225 \<longrightarrow> res = sdp4 elements tsince None \<and> r_algorithm res = SDP4) \<and>
            (r_algorithm res = SGP4 \<longleftrightarrow> period < 225) \<and>
            (period = 225 \<longrightarrow> r_algorithm res = SDP4)"
  by (simp add: propagate_def getSatelliteType_def DEEP_SPACE_THRESHOLD_def Let_def
      sgp4_algorithm sdp4_algorithm)

theorem propagate_dispatch_witness:
  "el_no (elements_of (TWOPI / 225) 0.28 0) \<noteq> 0 \<and>
   TWOPI / el_no (elements_of (TWOPI / 225) 0.28 0) = 225 \<and>
   propagate (elements_of (TWOPI / 225) 0.28 0) 0 = sdp4 (elements_of (TWOPI / 225) 0.28 0) 0 None \<and>
   r_algorithm (propagate (elements_of (TWOPI / 225) 0.28 0) 0) = SDP4 \<and>
   el_no (elements_of (TWOPI / 90) 0.28 0) \<noteq> 0 \<and>
   propagate (elements_of (TWOPI / 90) 0.28 0) 0 = sgp4 (elements_of (TWOPI / 90) 0.28 0) 0 None \<and>
   r_algorithm (propagate (elements_of (TWOPI / 90) 0.28 0) 0) = SGP4"
proof -
  have n: "el_no (elements_of (TWOPI / 225) 0.28 0) \<noteq> 0"
    "el_no (elements_of (TWOPI / 90) 0.28 0) \<noteq> 0"
    using TWOPI_pos by (simp_all add: elements_of_def)
  have p: "TWOPI / el_no (elements_of (TWOPI / 225) 0.28 0) = 225"
    "TWOPI / el_no (elements_of (TWOPI / 90) 0.28 0) = 90"
    using TWOPI_pos by (simp_all add: elements_of_def)
  show ?thesis
    using propagate_dispatch[OF n(1), of 0] propagate_dispatch[OF n(2), of 0] n
    unfolding Let_def p by (simp add: sgp4_algorithm sdp4_algorithm)
qed

lemma div_of_div: "a \<noteq> 0 \<Longrightarrow> a / (a / c) = c" for a c :: real
  by simp

lemma near_boundary_recovered:
  "\<exists>delo\<ge>0.0001. fst (recovered near_boundary) = (TWOPI / 224.99) / (1 + delo)"
proof -
  define x where "x = XKE / (TWOPI / 224.99)"
  define a1 where "a1 = x powr TOTHRD"
  define K :: real where "K = 1.5 * CK2 * 2"
  define B :: real where "B = 0.884736"
  define del1 where "del1 = K / (a1 * a1 * 0.96 * 0.9216)"
  define F where "F = 1 - del1 * (0.5 * TOTHRD + del1 * (1 + (134 / 81) * del1))"
  define ao where "ao = a1 * F"
  define delo where "delo = K / (ao * ao * 0.96 * 0.9216)"
  have K: "K = 0.001623924" by (simp add: K_def CK2_def XJ2_def)
  have x: "1 \<le> x" "x \<le> 8"
    using TWOPI_bounds TWOPI_pos by (simp_all add: x_def XKE_def field_simps)
  have "(8::real) powr TOTHRD = 2 ^ 2" using cube_powr_tothrd[of 2] by simp
  moreover have "x powr TOTHRD \<le> 8 powr TOTHRD"
    using x by (intro powr_mono2) (simp_all add: TOTHRD_def)
  moreover have "1 \<le> x powr TOTHRD"
    using x by (intro ge_one_powr_ge_zero) (simp_all add: TOTHRD_def)
  ultimately have a1: "1 \<le> a1" "a1 \<le> 4" by (simp_all add: a1_def)
  have a1sq: "1 \<le> a1 * a1" "a1 * a1 \<le> 16"
    using a1 mult_mono[of 1 a1 1 a1] mult_mono[of a1 4 a1 4] by simp_all
  have d1: "0 < del1" "del1 \<le> 0.002"
    using a1sq unfolding del1_def K by (simp_all add: field_simps)
  have in0: "0 \<le> del1 * (1 + (134 / 81) * del1)"
    using d1 by (intro mult_nonneg_nonneg add_nonneg_nonneg) simp_all
  have in1: "del1 * (1 + (134 / 81) * del1) \<le> 0.002 * 2"
    using d1 by (intro mult_mono) simp_all
  have t0: "0 \<le> 0.5 * TOTHRD + del1 * (1 + (134 / 81) * del1)"
    using in0 by (simp add: TOTHRD_def)
  have t1: "0.5 * TOTHRD + del1 * (1 + (134 / 81) * del1) \<le> 1"
    using in1 by (simp add: TOTHRD_def)
  define y where "y = del1 * (0.5 * TOTHRD + del1 * (1 + (134 / 81) * del1))"
  have "0 \<le> y" unfolding y_def using d1 t0 by (intro mult_nonneg_nonneg) simp_all
  moreover have "y \<le> 0.002 * 1" unfolding y_def using d1 t0 t1 by (intro mult_mono) simp_all
  moreover have "F = 1 - y" by (simp add: F_def y_def)
  ultimately have F: "0 < F" "F \<le> 1" by simp_all
  have ao: "0 < ao" "ao \<le> 4"
    using a1 F mult_mono[of a1 4 F 1] by (simp_all add: ao_def)
  have aosq: "0 < ao * ao" "ao * ao \<le> 16"
    using ao mult_mono[of ao 4 ao 4] by simp_all
  have "K / (16 * 0.96 * 0.9216) \<le> delo"
    unfolding delo_def K using aosq by (simp add: field_simps)
  then have delo: "0.0001 \<le> delo" unfolding K by simp
  have r: "fst (recovered near_boundary) = (TWOPI / 224.99) / (1 + delo)"
    unfolding recovered_def Let_def near_boundary_def elements_of_def
    by (simp add: delo_def ao_def F_def del1_def a1_def x_def K_def sqrt_9216)
  with delo show ?thesis by blast
qed

lemma near_boundary_dispatch: "propagate near_boundary 0 = sgp4 near_boundary 0 None"
proof -
  have "el_no near_boundary = TWOPI / 224.99"
    by (simp add: near_boundary_def elements_of_def)
  then have p: "TWOPI / el_no near_boundary = 224.99"
    using TWOPI_pos by (simp only: div_of_div[of TWOPI, OF less_imp_neq[THEN not_sym]])
  have "TWOPI / el_no near_boundary < 225" unfolding p by simp
  then show ?thesis
    by (simp add: propagate_def getSatelliteType_def DEEP_SPACE_THRESHOLD_def)
qed

lemma near_boundary_period: "\<not> TWOPI / fst (recovered near_boundary) < 225"
proof -
  from near_boundary_recovered obtain delo where
    d: "0.0001 \<le> delo" and r: "fst (recovered near_boundary) = (TWOPI / 224.99) / (1 + delo)"
    by blast
  define p where "p = TWOPI / fst (recovered near_boundary)"
  have "p = 224.99 * (1 + delo)"
    unfolding p_def r using TWOPI_pos d by simp
  moreover have "224.99 * (1 + 0.0001) \<le> 224.99 * (1 + delo)"
    using d by (intro mult_left_mono) simp_all
  moreover have "(225::real) \<le> 224.99 * (1 + 0.0001)" by simp
  ultimately have "\<not> p < 225" by linarith
  then show ?thesis unfolding p_def .
qed

text \<open>
  Claim C1 as stated fails: for the element set with mean motion \<open>2\<pi> / 224.99\<close>,
  eccentricity 0.28 and inclination 0 the dispatcher selects SGP4, and the period
  computed from the recovered mean motion (the field \<open>no\<close> of the state \<open>sgp4init\<close>
  returns) is not below 225.
\<close>

theorem dispatch_recovered_period_counterexample:
  "r_algorithm (propagate (elements_of (TWOPI / 224.99) 0.28 0) 0) = SGP4 \<and>
   \<not> TWOPI / s4_no (sgp4init (elements_of (TWOPI / 224.99) 0.28 0)) < 225"
proof -
  have a: "r_algorithm (propagate near_boundary 0) = SGP4"
    unfolding near_boundary_dispatch by (rule sgp4_algorithm)
  have b: "\<not> TWOPI / s4_no (sgp4init near_boundary) < 225"
    unfolding sgp4init_no by (rule near_boundary_period)
  from a b show ?thesis unfolding near_boundary_def by blast
qed

end
